theory Spec2Isabelle
  imports Complex_Main "HOL-Library.Multiset" "HOL-Library.Product_Lexorder"
    "HOL-Library.Log_Nat"
begin

section \<open>Pokemon (pokemon\_base.py)\<close>

text \<open>
  Numbers. The stats of a Pokemon are Python ints that become floats once an evolution
  multiplies them by 1.5, and \<open>/\<close> is true division. A number is modelled by the
  rational it denotes. On the stats (integers and their products with powers of 1.5) the
  halves, quarters and eighths of the damage formula are binary fractions of a few bits,
  which a double holds exactly, so that this arithmetic is exact. The completion of a
  pokedex is not such a fraction (7/100, 13/100): where the code divides and multiplies by
  completions, the model rounds each result to the nearest double, ties to even, with
  \<open>double\<close> (binary64 in its normal range; no modelled value comes near its ends).
\<close>

definition pow2 :: "int \<Rightarrow> rat" where
  "pow2 e = (if e \<ge> 0 then 2 ^ nat e else 1 / 2 ^ nat (- e))"

definition round_half_even :: "rat \<Rightarrow> int" where
  "round_half_even q =
     (let f = \<lfloor>q\<rfloor>; d = q - of_int f in
      if d < 1/2 then f else if d > 1/2 then f + 1 else if even f then f else f + 1)"

text \<open>The exponent \<open>e\<close> with \<open>2 ^ e \<le> a < 2 ^ (e + 1)\<close>, for a positive \<open>a\<close>.\<close>

definition binary_exponent :: "rat \<Rightarrow> int" where
  "binary_exponent a =
     (if a \<ge> 1 then int (floorlog 2 (nat \<lfloor>a\<rfloor>)) - 1
      else - int (floorlog 2 (nat \<lceil>1 / a\<rceil> - 1)))"

definition double :: "rat \<Rightarrow> rat" where
  "double x =
     (if x = 0 then 0
      else (let a = \<bar>x\<bar>; ulp = pow2 (binary_exponent a - 52)
            in sgn x * of_int (round_half_even (a / ulp)) * ulp))"

datatype PokeType =
  FIRE | WATER | GRASS | BUG | DRAGON | ELECTRIC | FIGHTING | FLYING
  | GHOST | GROUND | ICE | NORMAL | POISON | PSYCHIC | ROCK

record Pokemon =
  health :: rat
  level :: int
  poketype :: PokeType
  battle_power :: rat
  evolution_line :: "string list"
  name :: string
  experience :: int
  defence :: rat
  speed :: rat

text \<open>
  \<open>TypeEffectiveness.EFFECT_TABLE\<close> is read from type\_effectiveness.csv, which is not
  part of the sources: the table is a parameter \<open>eff\<close> of everything that attacks.
\<close>

type_synonym effect_table = "PokeType \<Rightarrow> PokeType \<Rightarrow> rat"

text \<open>The tiered damage of \<open>Pokemon.attack\<close>, before the type multiplier.\<close>

definition attack_damage :: "Pokemon \<Rightarrow> Pokemon \<Rightarrow> rat" where
  "attack_damage self other_pokemon =
     (let defence = defence other_pokemon; battle_power = battle_power self in
      if defence < battle_power / 2 then battle_power - defence
      else if defence < battle_power
        then of_int \<lceil>(battle_power * 5 / 8) - (defence / 4)\<rceil>
      else of_int \<lceil>battle_power / 4\<rceil>)"

definition attack :: "effect_table \<Rightarrow> Pokemon \<Rightarrow> Pokemon \<Rightarrow> rat" where
  "attack eff self other_pokemon =
     attack_damage self other_pokemon * eff (poketype self) (poketype other_pokemon)"

definition defend :: "Pokemon \<Rightarrow> int \<Rightarrow> Pokemon" where
  "defend self damage =
     (let effective_damage =
            (if of_int damage < defence self then of_int damage / 2 else of_int damage)
      in self\<lparr>health := health self - effective_damage\<rparr>)"

definition is_alive :: "Pokemon \<Rightarrow> bool" where
  "is_alive self = (health self > 0)"

text \<open>
  Python exceptions and narration. Every \<open>raise\<close> of the sources and every failure of a
  built-in that the modelled code can reach is a constructor of \<open>error\<close>; every
  \<open>print\<close> is an \<open>event\<close> appended to what the battle has printed.
\<close>

datatype error =
  NoTeams              \<comment> \<open>ValueError: Both trainers must have teams to commence battle\<close>
  | NotSortedList      \<comment> \<open>ValueError: Initial team must be assembled as an ArraySortedList\<close>
  | BadCriterion       \<comment> \<open>ValueError: criterion is not in CRITERION\_LIST\<close>
  | NotInList          \<comment> \<open>ValueError of \<open>list.index\<close>\<close>
  | IndexError
  | ZeroDivisionError
  | AttributeError     \<comment> \<open>a method the object does not have, or a method of \<open>None\<close>\<close>
  | TypeError          \<comment> \<open>indexing or assigning into a container that does not support it\<close>
  | UnboundLocalError  \<comment> \<open>\<open>return pokemon\<close> when no iteration assigned it\<close>
  | EmptyContainer     \<comment> \<open>\<open>pop\<close> or \<open>serve\<close> on an empty container\<close>

datatype event =
  Evolves string string                  \<comment> \<open>"X will evolve into Y!"\<close>
  | Fainted string                       \<comment> \<open>"X has fainted!"\<close>
  | Versus "nat option" "nat option"     \<comment> \<open>"p1 vs p2", the two objects by address\<close>
  | Round nat                            \<comment> \<open>"~ Round i ~"\<close>
  | Assembled string                     \<comment> \<open>"Team T assembled ... Battle:" and the team\<close>
  | Wins string nat                      \<comment> \<open>"T with n pokemons left wins the battle!"\<close>
  | Draw string string                   \<comment> \<open>"Both trainer ... It's a draw!"\<close>

text \<open>\<open>list.index\<close>: the first position of the element, \<open>ValueError\<close> when absent.\<close>

fun list_index :: "'a list \<Rightarrow> 'a \<Rightarrow> nat option" where
  "list_index [] x = None"
| "list_index (y # ys) x =
     (if y = x then Some 0 else map_option Suc (list_index ys x))"

text \<open>
  \<open>\_evolve\<close> and \<open>level\_up\<close>. A failure keeps the object as it was mutated so far
  (\<open>level\_up\<close> has already incremented the level when \<open>index\<close> raises).
\<close>

definition evolve :: "Pokemon \<Rightarrow> error \<times> Pokemon + event \<times> Pokemon" where
  "evolve self =
     (case list_index (evolution_line self) (name self) of
        None \<Rightarrow> Inl (NotInList, self)
      | Some i \<Rightarrow>
          if Suc i < length (evolution_line self) then
            (let evolved_name = evolution_line self ! Suc i in
             Inr (Evolves (name self) evolved_name,
                  self\<lparr>name := evolved_name,
                       battle_power := battle_power self * (3/2),
                       health := health self * (3/2),
                       speed := speed self * (3/2),
                       defence := defence self * (3/2)\<rparr>))
          else Inl (IndexError, self))"

definition level_up :: "Pokemon \<Rightarrow> error \<times> Pokemon + event list \<times> Pokemon" where
  "level_up self =
     (let self1 = self\<lparr>level := level self + 1\<rparr> in
      if length (evolution_line self1) > 0 then
        (case list_index (evolution_line self1) (name self1) of
           None \<Rightarrow> Inl (NotInList, self1)
         | Some i \<Rightarrow>
             if int i \<noteq> int (length (evolution_line self1)) - 1 then
               (case evolve self1 of
                  Inl e \<Rightarrow> Inl e
                | Inr (ev, self2) \<Rightarrow> Inr ([ev], self2))
             else Inr ([], self1))
      else Inr ([], self1))"

section \<open>Containers (data\_structures)\<close>

text \<open>
  Pokemon are objects: a team holds references to them, and the same object is reachable
  from the live team and from \<open>original\_team\<close>. A reference is a \<open>pid\<close>, the objects
  live in a heap \<open>pid \<Rightarrow> Pokemon\<close>.
\<close>

type_synonym pid = nat
type_synonym heap = "pid \<Rightarrow> Pokemon"

text \<open>
  Modelled from the spec: the package data\_structures (ArrayR, ArrayStack, CircularQueue,
  ArraySortedList, ListItem, BSet) is not part of the sources. Section 4.1 of the
  specification gives the contract: a stack whose front is the most recently pushed
  element, a queue whose front is the oldest element, a list sorted by key where an
  insertion is a binary-search-positioned insert-and-shift, and a set. Each container is
  its sequence of elements, front first; capacities are left out (no modelled operation
  stores more elements than the capacity the code allocates for it). A \<open>ListItem\<close> is
  the pair of its value and its key. A key is a number (\<open>assemble\_team\<close>) or a pair of
  numbers (\<open>assign\_team\<close>), compared as Python compares tuples; the number \<open>k\<close> is
  written \<open>(k, 0)\<close>, which compares with other such keys exactly as \<open>k\<close> does.
\<close>

type_synonym key = "rat \<times> int"
type_synonym ListItem = "pid \<times> key"

datatype adt =
  ArrayR "pid option list"
  | ArrayStack "pid list"
  | CircularQueue "pid list"
  | ArraySortedList "ListItem list"

definition push :: "'a \<Rightarrow> 'a list \<Rightarrow> 'a list" where
  "push x s = x # s"

definition pop :: "'a list \<Rightarrow> error + 'a \<times> 'a list" where
  "pop s = (case s of [] \<Rightarrow> Inl EmptyContainer | x # s' \<Rightarrow> Inr (x, s'))"

definition peek :: "'a list \<Rightarrow> error + 'a" where
  "peek s = (case s of [] \<Rightarrow> Inl EmptyContainer | x # s' \<Rightarrow> Inr x)"

definition append_queue :: "'a \<Rightarrow> 'a list \<Rightarrow> 'a list" where
  "append_queue x q = q @ [x]"

definition serve :: "'a list \<Rightarrow> error + 'a \<times> 'a list" where
  "serve q = (case q of [] \<Rightarrow> Inl EmptyContainer | x # q' \<Rightarrow> Inr (x, q'))"

text \<open>
  The position at which \<open>ArraySortedList.add\<close> inserts: a binary search between
  \<open>low\<close> and \<open>high\<close> that stops on an equal key.
\<close>

function index_to_add :: "key list \<Rightarrow> key \<Rightarrow> int \<Rightarrow> int \<Rightarrow> int" where
  "index_to_add ks k low high =
     (if low \<le> high then
        (let mid = (low + high) div 2 in
         if ks ! nat mid < k then index_to_add ks k (mid + 1) high
         else if ks ! nat mid > k then index_to_add ks k low (mid - 1)
         else mid)
      else low)"
  by pat_completeness auto
termination
  by (relation "measure (\<lambda>(ks, k, low, high). nat (high - low + 1))") auto

declare index_to_add.simps [simp del]

definition add :: "ListItem \<Rightarrow> ListItem list \<Rightarrow> ListItem list" where
  "add item xs =
     (let i = nat (index_to_add (map snd xs) (snd item) 0 (int (length xs) - 1))
      in take i xs @ item # drop i xs)"

definition delete_at_index :: "nat \<Rightarrow> 'a list \<Rightarrow> error + 'a list" where
  "delete_at_index i xs =
     (if i < length xs then Inr (take i xs @ drop (Suc i) xs) else Inl IndexError)"

section \<open>PokeTeam (poke\_team.py)\<close>

datatype BattleMode = SET | ROTATE | OPTIMISE   \<comment> \<open>values 0, 1, 2 (battle\_mode.py)\<close>

record PokeTeam =
  team :: adt
  team_count :: nat
  special_called :: bool
  criterion :: "string option"
  original_team :: "pid option list"

definition TEAM_LIMIT :: nat where
  "TEAM_LIMIT = 6"

definition CRITERION_LIST :: "string list" where
  "CRITERION_LIST = [''health'', ''defence'', ''battle_power'', ''speed'', ''level'']"

text \<open>\<open>getattr(pokemon, 'get\_' + criterion)()\<close> for a criterion of the list.\<close>

definition get_criterion :: "string \<Rightarrow> Pokemon \<Rightarrow> rat" where
  "get_criterion c p =
     (if c = ''health'' then health p
      else if c = ''defence'' then defence p
      else if c = ''battle_power'' then battle_power p
      else if c = ''speed'' then speed p
      else of_int (level p))"

definition in_criterion_list :: "string option \<Rightarrow> bool" where
  "in_criterion_list c = (case c of None \<Rightarrow> False | Some s \<Rightarrow> s \<in> set CRITERION_LIST)"

text \<open>
  \<open>choose\_randomly\<close>: the six random draws each create a Pokemon object; \<open>draws\<close>
  lists the address and the initial state of each. The last line makes
  \<open>original\_team\<close> the very array of references that \<open>team\<close> is.
\<close>

fun fill_team :: "(pid \<times> Pokemon) list \<Rightarrow> nat \<Rightarrow> heap \<Rightarrow> pid option list \<Rightarrow> nat
                  \<Rightarrow> heap \<times> pid option list \<times> nat" where
  "fill_team [] i h arr cnt = (h, arr, cnt)"
| "fill_team ((a, p) # ds) i h arr cnt =
     fill_team ds (Suc i) (h(a := p)) (arr[i := Some a]) (Suc cnt)"

definition choose_randomly :: "(pid \<times> Pokemon) list \<Rightarrow> heap \<Rightarrow> PokeTeam
                               \<Rightarrow> error + heap \<times> PokeTeam" where
  "choose_randomly draws h self =
     (case team self of
        ArrayR arr \<Rightarrow>
          (case fill_team (take TEAM_LIMIT draws) 0 h arr 0 of
             (h', arr', cnt) \<Rightarrow>
               Inr (h', self\<lparr>team := ArrayR arr', team_count := cnt,
                              original_team := arr'\<rparr>))
      | _ \<Rightarrow> Inl TypeError)"

text \<open>\<open>\_\_len\_\_\<close>.\<close>

definition len_team :: "PokeTeam \<Rightarrow> nat" where
  "len_team self =
     (case team self of
        ArrayR arr \<Rightarrow> team_count self
      | ArrayStack s \<Rightarrow> length s
      | CircularQueue q \<Rightarrow> length q
      | ArraySortedList xs \<Rightarrow> length xs)"

text \<open>
  \<open>\_\_getitem\_\_\<close>. The stack is emptied into a temporary stack up to the wanted index
  and refilled from it; the queue is cycled once; the sorted list and the array are read
  in place. The result is the Pokemon found (\<open>None\<close> is an empty slot of the array) and
  the team as the traversal leaves it.
\<close>

fun stack_out :: "int \<Rightarrow> nat list \<Rightarrow> pid list \<Rightarrow> pid list
                  \<Rightarrow> error + pid list \<times> pid list \<times> pid option" where
  "stack_out index [] s temp_stack = Inr (s, temp_stack, None)"
| "stack_out index (i # is) s temp_stack =
     (case pop s of
        Inl e \<Rightarrow> Inl e
      | Inr (x, s') \<Rightarrow>
          (let temp_stack' = push x temp_stack in
           if int i = index then
             (case peek temp_stack' of
                Inl e \<Rightarrow> Inl e
              | Inr pokemon \<Rightarrow> Inr (s', temp_stack', Some pokemon))
           else stack_out index is s' temp_stack'))"

fun stack_back :: "nat \<Rightarrow> pid list \<Rightarrow> pid list \<Rightarrow> error + pid list" where
  "stack_back 0 s temp_stack = Inr s"
| "stack_back (Suc n) s temp_stack =
     (case pop temp_stack of
        Inl e \<Rightarrow> Inl e
      | Inr (x, temp_stack') \<Rightarrow> stack_back n (push x s) temp_stack')"

fun queue_cycle :: "int \<Rightarrow> nat list \<Rightarrow> pid list \<Rightarrow> pid option
                    \<Rightarrow> error + pid list \<times> pid option" where
  "queue_cycle index [] q found_pokemon = Inr (q, found_pokemon)"
| "queue_cycle index (i # is) q found_pokemon =
     (case serve q of
        Inl e \<Rightarrow> Inl e
      | Inr (pokemon, q') \<Rightarrow>
          queue_cycle index is (append_queue pokemon q')
            (if int i = index then Some pokemon else found_pokemon))"

definition getitem :: "PokeTeam \<Rightarrow> int \<Rightarrow> error + pid option \<times> PokeTeam" where
  "getitem self index =
     (case team self of
        ArrayStack s \<Rightarrow>
          (case stack_out index [0..<length s] s [] of
             Inl e \<Rightarrow> Inl e
           | Inr (s1, temp_stack, pokemon) \<Rightarrow>
               (case stack_back (length temp_stack) s1 temp_stack of
                  Inl e \<Rightarrow> Inl e
                | Inr s2 \<Rightarrow>
                    (case pokemon of
                       None \<Rightarrow> Inl UnboundLocalError
                     | Some p \<Rightarrow> Inr (Some p, self\<lparr>team := ArrayStack s2\<rparr>))))
      | CircularQueue q \<Rightarrow>
          (case queue_cycle index [0..<length q] q None of
             Inl e \<Rightarrow> Inl e
           | Inr (q1, found_pokemon) \<Rightarrow>
               (case found_pokemon of
                  None \<Rightarrow> Inl UnboundLocalError
                | Some p \<Rightarrow> Inr (Some p, self\<lparr>team := CircularQueue q1\<rparr>)))
      | ArraySortedList xs \<Rightarrow>
          (if 0 \<le> index \<and> index < int (length xs)
           then Inr (Some (fst (xs ! nat index)), self)
           else Inl IndexError)
      | ArrayR arr \<Rightarrow>
          (if 0 \<le> index \<and> index < int (length arr)
           then Inr (arr ! nat index, self)
           else Inl IndexError))"

definition remove_pokemon :: "PokeTeam \<Rightarrow> error + PokeTeam" where
  "remove_pokemon self =
     (case team self of
        ArrayStack s \<Rightarrow>
          (case pop s of Inl e \<Rightarrow> Inl e
           | Inr (x, s') \<Rightarrow> Inr (self\<lparr>team := ArrayStack s'\<rparr>))
      | CircularQueue q \<Rightarrow>
          (case serve q of Inl e \<Rightarrow> Inl e
           | Inr (x, q') \<Rightarrow> Inr (self\<lparr>team := CircularQueue q'\<rparr>))
      | ArraySortedList xs \<Rightarrow>
          (case delete_at_index 0 xs of Inl e \<Rightarrow> Inl e
           | Inr xs' \<Rightarrow> Inr (self\<lparr>team := ArraySortedList xs'\<rparr>))
      | ArrayR arr \<Rightarrow> Inr self)"

definition rotate_pokemon :: "PokeTeam \<Rightarrow> error + PokeTeam" where
  "rotate_pokemon self =
     (case team self of
        CircularQueue q \<Rightarrow>
          (case serve q of Inl e \<Rightarrow> Inl e
           | Inr (pokemon, q') \<Rightarrow>
               Inr (self\<lparr>team := CircularQueue (append_queue pokemon q')\<rparr>))
      | _ \<Rightarrow> Inl AttributeError)"

text \<open>
  \<open>assign\_team\<close>: every item of the sorted list is added to a new sorted list under the
  key \<open>(order * stat, order * i)\<close>, \<open>i\<close> its position in the list being replaced. The
  criterion is checked inside the loop, so an empty team accepts any criterion.
\<close>

fun assign_loop :: "heap \<Rightarrow> string option \<Rightarrow> int \<Rightarrow> ListItem list \<Rightarrow> nat list
                    \<Rightarrow> ListItem list \<Rightarrow> error + ListItem list" where
  "assign_loop h c ord xs [] assembled_team = Inr assembled_team"
| "assign_loop h c ord xs (i # is) assembled_team =
     (let pokemon = fst (xs ! i) in
      if in_criterion_list c then
        assign_loop h c ord xs is
          (add (pokemon, (of_int ord * get_criterion (the c) (h pokemon), ord * int i))
               assembled_team)
      else Inl BadCriterion)"

definition assign_team :: "heap \<Rightarrow> string option \<Rightarrow> PokeTeam \<Rightarrow> error + PokeTeam" where
  "assign_team h c self =
     (case team self of
        ArraySortedList xs \<Rightarrow>
          (let ord = (if special_called self then - 1 else 1) in
           case assign_loop h c ord xs [0..<length xs] [] of
             Inl e \<Rightarrow> Inl e
           | Inr assembled_team \<Rightarrow> Inr (self\<lparr>team := ArraySortedList assembled_team\<rparr>))
      | _ \<Rightarrow> Inl NotSortedList)"

text \<open>
  \<open>assemble\_team\<close> reads \<open>self.team[i]\<close> from the container itself, which is the array
  of references when the method is called by the sources (after \<open>pick\_team\<close> and inside
  \<open>regenerate\_team\<close>). On a stack or a queue that indexing is a \<open>TypeError\<close>; on a
  sorted list the code would store the list items themselves in the new container, where
  their first use as a Pokemon fails: the model raises there at once. An empty slot below
  \<open>team\_count\<close> (none exists after \<open>choose\_randomly\<close>) raises on its first use too.
\<close>

fun assemble_loop :: "heap \<Rightarrow> BattleMode \<Rightarrow> string option \<Rightarrow> pid option list \<Rightarrow> nat list
                      \<Rightarrow> adt \<Rightarrow> error + adt" where
  "assemble_loop h n c arr [] assembled_team = Inr assembled_team"
| "assemble_loop h n c arr (i # is) assembled_team =
     (if i < length arr then
        (case arr ! i of
           None \<Rightarrow> Inl AttributeError
         | Some p \<Rightarrow>
             (case assembled_team of
                ArrayStack s \<Rightarrow> assemble_loop h n c arr is (ArrayStack (push p s))
              | CircularQueue q \<Rightarrow> assemble_loop h n c arr is (CircularQueue (append_queue p q))
              | ArraySortedList xs \<Rightarrow>
                  (if in_criterion_list c then
                     assemble_loop h n c arr is
                       (ArraySortedList (add (p, (get_criterion (the c) (h p), 0)) xs))
                   else Inl BadCriterion)
              | ArrayR a \<Rightarrow> Inl TypeError))
      else Inl IndexError)"

definition assemble_team :: "heap \<Rightarrow> BattleMode \<Rightarrow> string option \<Rightarrow> PokeTeam
                             \<Rightarrow> error + PokeTeam" where
  "assemble_team h battle_mode c self =
     (let empty_team = (case battle_mode of
                          SET \<Rightarrow> ArrayStack []
                        | ROTATE \<Rightarrow> CircularQueue []
                        | OPTIMISE \<Rightarrow> ArraySortedList [])
      in if team_count self = 0
         then Inr (self\<lparr>team := empty_team, criterion := c\<rparr>)
         else (case team self of
                 ArrayR arr \<Rightarrow>
                   (case assemble_loop h battle_mode c arr [0..<team_count self] empty_team of
                      Inl e \<Rightarrow> Inl e
                    | Inr assembled_team \<Rightarrow>
                        Inr (self\<lparr>team := assembled_team, criterion := c\<rparr>))
               | _ \<Rightarrow> Inl TypeError))"

text \<open>
  \<open>regenerate\_team\<close>. \<open>POKE\_LIST\<close> (pokemon.py, not part of the sources) is a parameter:
  the list of the objects that the constructors \<open>p()\<close> create. Every template with the
  evolution line of the original Pokemon sets its health, so the last one stays.
\<close>

fun reset_health :: "Pokemon list \<Rightarrow> Pokemon \<Rightarrow> Pokemon" where
  "reset_health [] original_pokemon = original_pokemon"
| "reset_health (p # ps) original_pokemon =
     reset_health ps
       (if evolution_line original_pokemon = evolution_line p
        then original_pokemon\<lparr>health := health p\<rparr> else original_pokemon)"

fun regenerate_loop :: "Pokemon list \<Rightarrow> pid option list \<Rightarrow> heap \<Rightarrow> error + heap" where
  "regenerate_loop POKE_LIST [] h = Inr h"
| "regenerate_loop POKE_LIST (None # rest) h =
     (if POKE_LIST = [] then regenerate_loop POKE_LIST rest h else Inl AttributeError)"
| "regenerate_loop POKE_LIST (Some a # rest) h =
     regenerate_loop POKE_LIST rest (h(a := reset_health POKE_LIST (h a)))"

definition regenerate_team :: "Pokemon list \<Rightarrow> heap \<Rightarrow> BattleMode \<Rightarrow> string option
                               \<Rightarrow> PokeTeam \<Rightarrow> error + heap \<times> PokeTeam" where
  "regenerate_team POKE_LIST h battle_mode c self =
     (case regenerate_loop POKE_LIST (original_team self) h of
        Inl e \<Rightarrow> Inl e
      | Inr h' \<Rightarrow>
          (case assemble_team h' battle_mode c (self\<lparr>team := ArrayR (original_team self)\<rparr>) of
             Inl e \<Rightarrow> Inl e
           | Inr self' \<Rightarrow> Inr (h', self')))"

text \<open>
  \<open>special\<close>. Mode 0 reverses the front half of a stack through two temporary stacks,
  mode 1 reverses the back half of a queue, mode 2 flips \<open>special\_called\<close> and resorts.
\<close>

fun pop_push :: "nat \<Rightarrow> 'a list \<Rightarrow> 'a list \<Rightarrow> error + 'a list \<times> 'a list" where
  "pop_push 0 src dst = Inr (src, dst)"
| "pop_push (Suc n) src dst =
     (case pop src of Inl e \<Rightarrow> Inl e | Inr (x, src') \<Rightarrow> pop_push n src' (push x dst))"

fun serve_append :: "nat \<Rightarrow> 'a list \<Rightarrow> error + 'a list" where
  "serve_append 0 q = Inr q"
| "serve_append (Suc n) q =
     (case serve q of Inl e \<Rightarrow> Inl e | Inr (x, q') \<Rightarrow> serve_append n (append_queue x q'))"

fun serve_push :: "nat \<Rightarrow> 'a list \<Rightarrow> 'a list \<Rightarrow> error + 'a list \<times> 'a list" where
  "serve_push 0 q temp_stack = Inr (q, temp_stack)"
| "serve_push (Suc n) q temp_stack =
     (case serve q of Inl e \<Rightarrow> Inl e | Inr (x, q') \<Rightarrow> serve_push n q' (push x temp_stack))"

fun pop_append :: "nat \<Rightarrow> 'a list \<Rightarrow> 'a list \<Rightarrow> error + 'a list" where
  "pop_append 0 temp_stack q = Inr q"
| "pop_append (Suc n) temp_stack q =
     (case pop temp_stack of Inl e \<Rightarrow> Inl e
      | Inr (x, temp_stack') \<Rightarrow> pop_append n temp_stack' (append_queue x q))"

definition special :: "heap \<Rightarrow> BattleMode \<Rightarrow> PokeTeam \<Rightarrow> error + PokeTeam" where
  "special h battle_mode self =
     (case battle_mode of
        SET \<Rightarrow>
          (let half = team_count self div 2 in
           if half = 0 then Inr self
           else (case team self of
                   ArrayStack s \<Rightarrow>
                     (case pop_push half s [] of
                        Inl e \<Rightarrow> Inl e
                      | Inr (s1, temp_stack_1) \<Rightarrow>
                          (case pop_push half temp_stack_1 [] of
                             Inl e \<Rightarrow> Inl e
                           | Inr (t1, temp_stack_2) \<Rightarrow>
                               (case pop_push half temp_stack_2 s1 of
                                  Inl e \<Rightarrow> Inl e
                                | Inr (t2, s2) \<Rightarrow> Inr (self\<lparr>team := ArrayStack s2\<rparr>))))
                 | _ \<Rightarrow> Inl AttributeError))
      | ROTATE \<Rightarrow>
          (let half = team_count self div 2 in
           if team_count self = 0 then Inr self
           else (case team self of
                   CircularQueue q \<Rightarrow>
                     (case serve_append (team_count self - half) q of
                        Inl e \<Rightarrow> Inl e
                      | Inr q1 \<Rightarrow>
                          (case serve_push half q1 [] of
                             Inl e \<Rightarrow> Inl e
                           | Inr (q2, temp_stack) \<Rightarrow>
                               (case pop_append (length temp_stack) temp_stack q2 of
                                  Inl e \<Rightarrow> Inl e
                                | Inr q3 \<Rightarrow> Inr (self\<lparr>team := CircularQueue q3\<rparr>))))
                 | _ \<Rightarrow> Inl AttributeError))
      | OPTIMISE \<Rightarrow>
          (let self1 = self\<lparr>special_called := \<not> special_called self\<rparr>
           in assign_team h (criterion self1) self1))"

section \<open>Trainer (poke\_team.py)\<close>

record Trainer =
  trainer_name :: string
  trainer_team :: PokeTeam
  pokedex :: "PokeType set"

text \<open>
  \<open>get\_pokedex\_completion\<close> is \<open>round(len(self.pokedex) / len(PokeType), 2)\<close>: the
  number of registered types over 15, to two decimals (no multiple of 1/15 lies halfway
  between two of them, so that the rounding of the quotient to a double does not change
  the decimals), as the double nearest to that decimal number.
\<close>

definition register_pokemon :: "Pokemon \<Rightarrow> Trainer \<Rightarrow> Trainer" where
  "register_pokemon pokemon self = self\<lparr>pokedex := insert (poketype pokemon) (pokedex self)\<rparr>"

definition get_pokedex_completion :: "Trainer \<Rightarrow> rat" where
  "get_pokedex_completion self =
     double (of_int (round (of_nat (card (pokedex self)) / (15::rat) * 100)) / 100)"

section \<open>Battle (battle.py)\<close>

text \<open>
  The state of a battle: the heap of Pokemon objects, the two trainers, the mode, the
  criterion and what has been printed so far. A method that can raise returns a
  \<open>result\<close>: the value and the state, or the exception and the state as the method left
  it. \<open>OutOfFuel\<close> is not a Python outcome: the \<open>while\<close> loops of the three battles
  take a bound on the number of rounds, and it says that the bound was reached.
  The formatted texts are left out of the events; printing a team traverses a stack or a
  queue and restores it, as \<open>\_\_getitem\_\_\<close> does.
\<close>

record Battle =
  heap :: heap
  trainer_1 :: Trainer
  trainer_2 :: Trainer
  battle_mode :: BattleMode
  battle_criterion :: string
  printed :: "event list"

datatype side = First | Second   \<comment> \<open>\<open>self.trainer\_1\<close>, \<open>self.trainer\_2\<close>\<close>

datatype 'a result = Return 'a Battle | Raise error Battle | OutOfFuel

definition bind :: "'a result \<Rightarrow> ('a \<Rightarrow> Battle \<Rightarrow> 'b result) \<Rightarrow> 'b result" where
  "bind r f = (case r of Return x b \<Rightarrow> f x b | Raise e b \<Rightarrow> Raise e b | OutOfFuel \<Rightarrow> OutOfFuel)"

definition trainer :: "side \<Rightarrow> Battle \<Rightarrow> Trainer" where
  "trainer sd b = (case sd of First \<Rightarrow> trainer_1 b | Second \<Rightarrow> trainer_2 b)"

definition set_trainer :: "side \<Rightarrow> Trainer \<Rightarrow> Battle \<Rightarrow> Battle" where
  "set_trainer sd t b = (case sd of First \<Rightarrow> b\<lparr>trainer_1 := t\<rparr> | Second \<Rightarrow> b\<lparr>trainer_2 := t\<rparr>)"

definition get_team :: "side \<Rightarrow> Battle \<Rightarrow> PokeTeam" where
  "get_team sd b = trainer_team (trainer sd b)"

definition set_team :: "side \<Rightarrow> PokeTeam \<Rightarrow> Battle \<Rightarrow> Battle" where
  "set_team sd t b = set_trainer sd ((trainer sd b)\<lparr>trainer_team := t\<rparr>) b"

definition print :: "event list \<Rightarrow> Battle \<Rightarrow> Battle" where
  "print evs b = b\<lparr>printed := printed b @ evs\<rparr>"

definition set_pokemon :: "pid \<Rightarrow> Pokemon \<Rightarrow> Battle \<Rightarrow> Battle" where
  "set_pokemon a p b = b\<lparr>heap := (heap b)(a := p)\<rparr>"

definition killed :: "pid \<Rightarrow> pid \<Rightarrow> side \<Rightarrow> bool \<Rightarrow> Battle \<Rightarrow> unit result" where
  "killed winner_pokemon dead_pokemon dead_trainer together_dead b =
     (let b1 = print [Fainted (name (heap b dead_pokemon))] b in
      case remove_pokemon (get_team dead_trainer b1) of
        Inl e \<Rightarrow> Raise e b1
      | Inr t \<Rightarrow>
          (let b2 = set_team dead_trainer t b1 in
           if \<not> together_dead then
             (case level_up (heap b2 winner_pokemon) of
                Inl (e, p) \<Rightarrow> Raise e (set_pokemon winner_pokemon p b2)
              | Inr (evs, p) \<Rightarrow> Return () (print evs (set_pokemon winner_pokemon p b2)))
           else Return () b2))"

definition attack_and_defend :: "effect_table \<Rightarrow> pid \<Rightarrow> pid \<Rightarrow> side \<Rightarrow> side \<Rightarrow> Battle
                                 \<Rightarrow> unit result" where
  "attack_and_defend eff attacker defender trainer_attacker trainer_defender b =
     (let effective_damage = attack eff (heap b attacker) (heap b defender) in
      if get_pokedex_completion (trainer trainer_defender b) = 0 then Raise ZeroDivisionError b
      else
        (let effective_damage = double (effective_damage *
               double (get_pokedex_completion (trainer trainer_attacker b)
                         / get_pokedex_completion (trainer trainer_defender b)));
             b1 = set_pokemon defender (defend (heap b defender) \<lceil>effective_damage\<rceil>) b
         in if \<not> is_alive (heap b1 defender)
            then killed attacker defender trainer_defender False b1
            else Return () b1))"

definition deduct_two :: "pid \<Rightarrow> pid \<Rightarrow> Battle \<Rightarrow> unit result" where
  "deduct_two p1 p2 b =
     (let b1 = set_pokemon p1 (defend (heap b p1) 2) b;
          b2 = set_pokemon p2 (defend (heap b1 p2) 2) b1
      in if \<not> is_alive (heap b2 p1) \<and> \<not> is_alive (heap b2 p2) then
           bind (killed p1 p2 Second True b2) (\<lambda>_. killed p2 p1 First True)
         else if \<not> is_alive (heap b2 p1) then killed p2 p1 First False b2
         else if \<not> is_alive (heap b2 p2) then killed p1 p2 Second False b2
         else Return () b2)"

definition fight :: "effect_table \<Rightarrow> pid \<Rightarrow> pid \<Rightarrow> Battle \<Rightarrow> unit result" where
  "fight eff p1 p2 b =
     (let b1 = print [Versus (Some p1) (Some p2)] b;
          b2 = b1\<lparr>trainer_1 := register_pokemon (heap b1 p2) (trainer_1 b1)\<rparr>;
          b3 = b2\<lparr>trainer_2 := register_pokemon (heap b2 p1) (trainer_2 b2)\<rparr>;
          clash =
            (if speed (heap b3 p1) \<noteq> speed (heap b3 p2) then
               (let (first_attacker, second_attacker) =
                      (if speed (heap b3 p1) > speed (heap b3 p2) then (p1, p2) else (p2, p1));
                    (first_trainer, second_trainer) =
                      (if first_attacker = p1 then (First, Second) else (Second, First))
                in bind (attack_and_defend eff first_attacker second_attacker
                           first_trainer second_trainer b3)
                     (\<lambda>_ b4. if is_alive (heap b4 second_attacker)
                              then attack_and_defend eff second_attacker first_attacker
                                     second_trainer first_trainer b4
                              else Return () b4))
             else
               bind (attack_and_defend eff p1 p2 First Second b3)
                 (\<lambda>_. attack_and_defend eff p2 p1 Second First))
      in bind clash
           (\<lambda>_ b5. if is_alive (heap b5 p1) \<and> is_alive (heap b5 p2)
                    then deduct_two p1 p2 b5 else Return () b5))"

text \<open>
  \<open>fight\_enemy\_pokemon\<close>. When an index finds an empty slot, \<open>fight\<close> prints the pair
  and the first \<open>register\_pokemon\<close> that receives \<open>None\<close> raises.
\<close>

definition fight_enemy_pokemon :: "effect_table \<Rightarrow> Battle \<Rightarrow> (pid \<times> pid) result" where
  "fight_enemy_pokemon eff b =
     (case getitem (get_team First b) 0 of
        Inl e \<Rightarrow> Raise e b
      | Inr (p1, t1) \<Rightarrow>
          (let b1 = set_team First t1 b in
           case getitem (get_team Second b1) 0 of
             Inl e \<Rightarrow> Raise e b1
           | Inr (p2, t2) \<Rightarrow>
               (let b2 = set_team Second t2 b1 in
                case (p1, p2) of
                  (Some a1, Some a2) \<Rightarrow> bind (fight eff a1 a2 b2) (\<lambda>_. Return (a1, a2))
                | (_, None) \<Rightarrow> Raise AttributeError (print [Versus p1 p2] b2)
                | (None, Some a2) \<Rightarrow>
                    Raise AttributeError
                      ((print [Versus p1 p2] b2)
                         \<lparr>trainer_1 := register_pokemon (heap b2 a2) (trainer_1 b2)\<rparr>))))"

definition battle_result :: "Battle \<Rightarrow> side option" where
  "battle_result b =
     (if len_team (get_team First b) = 0 \<and> len_team (get_team Second b) = 0 then None
      else if len_team (get_team First b) = 0 then Some Second
      else Some First)"

text \<open>
  The \<open>while\<close> loop of \<open>set\_battle\<close>, \<open>rotate\_battle\<close> and \<open>optimise\_battle\<close>: the three
  differ in what follows \<open>fight\_enemy\_pokemon\<close> in the body, the parameter \<open>after\<close>.
\<close>

fun rounds :: "effect_table \<Rightarrow> (pid \<times> pid \<Rightarrow> Battle \<Rightarrow> unit result) \<Rightarrow> nat \<Rightarrow> nat
               \<Rightarrow> Battle \<Rightarrow> unit result" where
  "rounds eff after 0 i b = OutOfFuel"
| "rounds eff after (Suc fuel) i b =
     (if len_team (get_team First b) > 0 \<and> len_team (get_team Second b) > 0 then
        bind (bind (fight_enemy_pokemon eff (print [Round (i + 1)] b)) after)
          (\<lambda>_. rounds eff after fuel (i + 1))
      else Return () b)"

definition announce :: "Battle \<Rightarrow> Battle" where
  "announce b =
     print [Assembled (trainer_name (trainer_1 b)), Assembled (trainer_name (trainer_2 b))] b"

definition set_battle :: "effect_table \<Rightarrow> nat \<Rightarrow> Battle \<Rightarrow> side option result" where
  "set_battle eff fuel b =
     bind (rounds eff (\<lambda>_. Return ()) fuel 0 (announce b))
       (\<lambda>_ b'. Return (battle_result b') b')"

definition rotate_after :: "pid \<times> pid \<Rightarrow> Battle \<Rightarrow> unit result" where
  "rotate_after ps b =
     (case ps of (p1, p2) \<Rightarrow>
        bind (if is_alive (heap b p1)
              then (case rotate_pokemon (get_team First b) of
                      Inl e \<Rightarrow> Raise e b
                    | Inr t \<Rightarrow> Return () (set_team First t b))
              else Return () b)
          (\<lambda>_ b1. if is_alive (heap b1 p2)
                   then (case rotate_pokemon (get_team Second b1) of
                           Inl e \<Rightarrow> Raise e b1
                         | Inr t \<Rightarrow> Return () (set_team Second t b1))
                   else Return () b1))"

definition rotate_battle :: "effect_table \<Rightarrow> nat \<Rightarrow> Battle \<Rightarrow> side option result" where
  "rotate_battle eff fuel b =
     bind (rounds eff rotate_after fuel 0 (announce b))
       (\<lambda>_ b'. Return (battle_result b') b')"

definition optimise_after :: "pid \<times> pid \<Rightarrow> Battle \<Rightarrow> unit result" where
  "optimise_after ps b =
     (case assign_team (heap b) (Some (battle_criterion b)) (get_team First b) of
        Inl e \<Rightarrow> Raise e b
      | Inr t1 \<Rightarrow>
          (let b1 = set_team First t1 b in
           case assign_team (heap b1) (Some (battle_criterion b1)) (get_team Second b1) of
             Inl e \<Rightarrow> Raise e b1
           | Inr t2 \<Rightarrow> Return () (set_team Second t2 b1)))"

definition optimise_battle :: "effect_table \<Rightarrow> nat \<Rightarrow> Battle \<Rightarrow> side option result" where
  "optimise_battle eff fuel b =
     bind (rounds eff optimise_after fuel 0 (announce b))
       (\<lambda>_ b'. Return (battle_result b') b')"

definition commence_battle :: "effect_table \<Rightarrow> nat \<Rightarrow> Battle \<Rightarrow> side option result" where
  "commence_battle eff fuel b =
     (if len_team (get_team First b) \<le> 0 \<or> len_team (get_team Second b) \<le> 0
      then Raise NoTeams b
      else
        bind (case battle_mode b of
                SET \<Rightarrow> set_battle eff fuel b
              | ROTATE \<Rightarrow> rotate_battle eff fuel b
              | OPTIMISE \<Rightarrow> optimise_battle eff fuel b)
          (\<lambda>win_team b'.
             case win_team of
               Some First \<Rightarrow>
                 Return (Some First)
                   (print [Wins (trainer_name (trainer_1 b')) (len_team (get_team First b'))] b')
             | Some Second \<Rightarrow>
                 Return (Some Second)
                   (print [Wins (trainer_name (trainer_2 b')) (len_team (get_team Second b'))] b')
             | None \<Rightarrow>
                 Return None
                   (print [Draw (trainer_name (trainer_1 b')) (trainer_name (trainer_2 b'))] b')))"

section \<open>Observations and example data\<close>

text \<open>
  The Pokemon of a team from front to back: the top of the stack, the head of the queue,
  the first item of the sorted list, slot 0 of the array (\<open>None\<close> is an empty slot).
\<close>

fun adt_order :: "adt \<Rightarrow> pid option list" where
  "adt_order (ArrayR arr) = arr"
| "adt_order (ArrayStack s) = map Some s"
| "adt_order (CircularQueue q) = map Some q"
| "adt_order (ArraySortedList xs) = map (\<lambda>item. Some (fst item)) xs"

definition order :: "PokeTeam \<Rightarrow> pid option list" where
  "order self = adt_order (team self)"

text \<open>Whether a call returned, and the state it left (\<open>b0\<close> when the bound was reached).\<close>

definition returns :: "'a result \<Rightarrow> bool" where
  "returns r = (case r of Return x b \<Rightarrow> True | _ \<Rightarrow> False)"

definition result_state :: "'a result \<Rightarrow> Battle \<Rightarrow> Battle" where
  "result_state r b0 = (case r of Return x b \<Rightarrow> b | Raise e b \<Rightarrow> b | OutOfFuel \<Rightarrow> b0)"

text \<open>
  Example data: a table where every type is neutral against every other, a Pokemon of
  level 1 with given name, type, health, battle power, defence, speed and evolution line,
  and a team assembled in a given container from a given array of references.
\<close>

definition neutral :: effect_table where
  "neutral attack_type defend_type = 1"

definition pokemon :: "string \<Rightarrow> PokeType \<Rightarrow> rat \<Rightarrow> rat \<Rightarrow> rat \<Rightarrow> rat \<Rightarrow> string list
                       \<Rightarrow> Pokemon" where
  "pokemon n ty hp bp df sp line =
     \<lparr>health = hp, level = 1, poketype = ty, battle_power = bp, evolution_line = line,
      name = n, experience = 0, defence = df, speed = sp\<rparr>"

definition poke_team :: "adt \<Rightarrow> pid option list \<Rightarrow> PokeTeam" where
  "poke_team container arr =
     \<lparr>team = container, team_count = length arr, special_called = False,
      criterion = None, original_team = arr\<rparr>"

definition heap_of :: "Pokemon list \<Rightarrow> heap" where
  "heap_of ps a = (if a < length ps then ps ! a else pokemon [] NORMAL 0 0 0 0 [])"

definition battle_of :: "heap \<Rightarrow> adt \<Rightarrow> adt \<Rightarrow> BattleMode \<Rightarrow> Battle" where
  "battle_of h c1 c2 m =
     \<lparr>heap = h,
      trainer_1 = \<lparr>trainer_name = ''Ash'', trainer_team = poke_team c1 (order (poke_team c1 [])),
                   pokedex = {}\<rparr>,
      trainer_2 = \<lparr>trainer_name = ''Gary'', trainer_team = poke_team c2 (order (poke_team c2 [])),
                   pokedex = {}\<rparr>,
      battle_mode = m, battle_criterion = ''health'', printed = []\<rparr>"

text \<open>
  Two one-against-one battles on stacks. In \<open>duel\<close> A is faster and its attack is lethal
  (the end-to-end scenario of the specification); in \<open>twins\<close> the speeds are equal and
  each attack is lethal.
\<close>

definition duel :: Battle where
  "duel = battle_of (heap_of [pokemon ''A'' FIRE 10 20 1 10 [], pokemon ''B'' FIRE 10 5 1 5 []])
            (ArrayStack [0]) (ArrayStack [1]) SET"

definition twins :: Battle where
  "twins = battle_of (heap_of [pokemon ''A'' FIRE 10 20 1 10 [], pokemon ''B'' FIRE 10 20 1 10 []])
            (ArrayStack [0]) (ArrayStack [1]) SET"

text \<open>
  The first three statements of \<open>fight\<close> (the print and the two registrations) and its
  last one (the chip damage when both are still alive), as state transformers.
\<close>

definition registered :: "pid \<Rightarrow> pid \<Rightarrow> Battle \<Rightarrow> Battle" where
  "registered p1 p2 b =
     (print [Versus (Some p1) (Some p2)] b)
       \<lparr>trainer_1 := register_pokemon (heap b p2) (trainer_1 b),
        trainer_2 := register_pokemon (heap b p1) (trainer_2 b)\<rparr>"

definition chip :: "pid \<Rightarrow> pid \<Rightarrow> Battle \<Rightarrow> unit result" where
  "chip p1 p2 b =
     (if is_alive (heap b p1) \<and> is_alive (heap b p2) then deduct_two p1 p2 b else Return () b)"

text \<open>A battle in which the second trainer has no Pokemon left.\<close>

definition walkover :: Battle where
  "walkover = battle_of (heap_of [pokemon ''A'' FIRE 10 20 1 10 []])
                (ArrayStack [0]) (ArrayStack []) SET"

text \<open>A call that does not raise the error of \<open>commence\_battle\<close>.\<close>

definition never_no_teams :: "'a result \<Rightarrow> bool" where
  "never_no_teams r = (\<forall>b. r \<noteq> Raise NoTeams b)"

text \<open>
  Every state that a call can leave (on return and on an exception) satisfies \<open>P\<close>.
\<close>

definition leaves :: "(Battle \<Rightarrow> bool) \<Rightarrow> 'a result \<Rightarrow> bool" where
  "leaves P r = (case r of Return x b \<Rightarrow> P b | Raise e b \<Rightarrow> P b | OutOfFuel \<Rightarrow> True)"

text \<open>
  The snapshots of the two teams, and what a snapshot records: the Pokemon that its
  references lead to in the heap.
\<close>

definition originals :: "Battle \<Rightarrow> pid option list \<times> pid option list" where
  "originals b = (original_team (get_team First b), original_team (get_team Second b))"

definition original_stats :: "heap \<Rightarrow> PokeTeam \<Rightarrow> Pokemon option list" where
  "original_stats h self = map (map_option h) (original_team self)"

text \<open>The attacks of \<open>fight\<close>, between the registrations and the chip damage.\<close>

definition clash :: "effect_table \<Rightarrow> pid \<Rightarrow> pid \<Rightarrow> Battle \<Rightarrow> unit result" where
  "clash eff p1 p2 b =
     (if speed (heap b p1) \<noteq> speed (heap b p2) then
        (if speed (heap b p1) > speed (heap b p2)
         then bind (attack_and_defend eff p1 p2 First Second b)
                (\<lambda>u b4. if is_alive (heap b4 p2)
                         then attack_and_defend eff p2 p1 Second First b4 else Return () b4)
         else bind (attack_and_defend eff p2 p1 Second First b)
                (\<lambda>u b4. if is_alive (heap b4 p1)
                         then attack_and_defend eff p1 p2 First Second b4 else Return () b4))
      else bind (attack_and_defend eff p1 p2 First Second b)
             (\<lambda>u. attack_and_defend eff p2 p1 Second First))"

text \<open>
  \<open>PokeTeam.\_\_init\_\_\<close>, and a team as \<open>BattleTower.generate\_enemy\_trainers\<close> makes
  one: chosen randomly, then assembled for a rotating battle. \<open>arena\<close> is a battle
  between two such teams of six, with A of \<open>duel\<close> in front of the first and B in front of
  the second.
\<close>

definition PokeTeam_init :: PokeTeam where
  "PokeTeam_init =
     \<lparr>team = ArrayR (replicate TEAM_LIMIT None), team_count = 0, special_called = False,
      criterion = None, original_team = replicate TEAM_LIMIT None\<rparr>"

definition drawn :: "(pid \<times> Pokemon) list \<Rightarrow> heap \<Rightarrow> heap \<times> PokeTeam" where
  "drawn draws h =
     (case choose_randomly draws h PokeTeam_init of
        Inl e \<Rightarrow> (h, PokeTeam_init)
      | Inr (h', t) \<Rightarrow>
          (case assemble_team h' ROTATE None t of Inl e \<Rightarrow> (h', t) | Inr t' \<Rightarrow> (h', t')))"

definition six_a :: "(pid \<times> Pokemon) list" where
  "six_a = [(0, pokemon ''A'' FIRE 10 20 1 10 []), (1, pokemon ''C'' FIRE 10 5 1 5 []),
            (2, pokemon ''C'' FIRE 10 5 1 5 []), (3, pokemon ''C'' FIRE 10 5 1 5 []),
            (4, pokemon ''C'' FIRE 10 5 1 5 []), (5, pokemon ''C'' FIRE 10 5 1 5 [])]"

definition six_b :: "(pid \<times> Pokemon) list" where
  "six_b = [(6, pokemon ''B'' FIRE 10 5 1 5 []), (7, pokemon ''C'' FIRE 10 5 1 5 []),
            (8, pokemon ''C'' FIRE 10 5 1 5 []), (9, pokemon ''C'' FIRE 10 5 1 5 []),
            (10, pokemon ''C'' FIRE 10 5 1 5 []), (11, pokemon ''C'' FIRE 10 5 1 5 [])]"

definition arena :: Battle where
  "arena =
     (case drawn six_a (heap_of []) of
        (h1, t1) \<Rightarrow>
          (case drawn six_b h1 of
             (h2, t2) \<Rightarrow>
               \<lparr>heap = h2,
                trainer_1 = \<lparr>trainer_name = ''Ash'', trainer_team = t1, pokedex = {}\<rparr>,
                trainer_2 = \<lparr>trainer_name = ''Gary'', trainer_team = t2, pokedex = {}\<rparr>,
                battle_mode = ROTATE, battle_criterion = ''health'', printed = []\<rparr>))"

text \<open>
  The templates of \<open>POKE\_LIST\<close> that have the evolution line of a Pokemon, in the order
  of the list.
\<close>

definition same_line :: "Pokemon list \<Rightarrow> Pokemon \<Rightarrow> Pokemon list" where
  "same_line POKE_LIST p = filter (\<lambda>q. evolution_line p = evolution_line q) POKE_LIST"

text \<open>
  A team of six whose first Pokemon, a Cub that evolves into a Bear, has won a fight
  (level-up and evolution) and then taken a hit of 3; \<open>templates\<close> is the list of the
  species, and \<open>regenerated\<close> what \<open>regenerate\_team\<close> gives for a rotating battle.
\<close>

definition cub :: Pokemon where
  "cub = pokemon ''Cub'' FIRE 8 6 4 7 [''Cub'', ''Bear'']"

definition grown :: Pokemon where
  "grown = (case level_up cub of Inl (e, p) \<Rightarrow> p | Inr (evs, p) \<Rightarrow> p)"

definition six_c :: "(pid \<times> Pokemon) list" where
  "six_c = [(0, cub), (1, pokemon ''C'' FIRE 10 5 1 5 []),
            (2, pokemon ''C'' FIRE 10 5 1 5 []), (3, pokemon ''C'' FIRE 10 5 1 5 []),
            (4, pokemon ''C'' FIRE 10 5 1 5 []), (5, pokemon ''C'' FIRE 10 5 1 5 [])]"

definition templates :: "Pokemon list" where
  "templates = [cub, pokemon ''C'' FIRE 10 5 1 5 []]"

definition veteran_heap :: heap where
  "veteran_heap = (fst (drawn six_c (heap_of [])))(0 := defend grown 3)"

definition veteran_team :: PokeTeam where
  "veteran_team = snd (drawn six_c (heap_of []))"

definition regenerated :: "heap \<times> PokeTeam" where
  "regenerated = projr (regenerate_team templates veteran_heap ROTATE None veteran_team)"

text \<open>
  The sorting order of \<open>assign\_team\<close> (\<open>-1 if self.special\_called else 1\<close>), the item
  it builds for the Pokemon at position \<open>i\<close> of the list being replaced, and \<open>n\<close>
  successive calls of \<open>special\<close> in the optimised mode.
\<close>

definition direction :: "PokeTeam \<Rightarrow> int" where
  "direction self = (if special_called self then - 1 else 1)"

definition list_item :: "heap \<Rightarrow> string \<Rightarrow> int \<Rightarrow> ListItem list \<Rightarrow> nat \<Rightarrow> ListItem" where
  "list_item h crit ord xs i =
     (fst (xs ! i), (of_int ord * get_criterion crit (h (fst (xs ! i))), ord * int i))"

fun special_times :: "heap \<Rightarrow> nat \<Rightarrow> PokeTeam \<Rightarrow> error + PokeTeam" where
  "special_times h 0 self = Inr self"
| "special_times h (Suc n) self =
     (case special h OPTIMISE self of Inl e \<Rightarrow> Inl e | Inr self' \<Rightarrow> special_times h n self')"

text \<open>
  A sorted team of two Pokemon of equal health, as a resort by health leaves it.
\<close>

definition tied_heap :: heap where
  "tied_heap = heap_of [pokemon ''A'' FIRE 5 20 1 10 [], pokemon ''B'' FIRE 5 20 1 10 []]"

definition tied_team :: PokeTeam where
  "tied_team =
     \<lparr>team = ArraySortedList [(0, (5, 0)), (1, (5, 1))], team_count = 2,
      special_called = False, criterion = Some ''health'',
      original_team = [Some 0, Some 1, None, None, None, None]\<rparr>"

definition tied_after :: PokeTeam where
  "tied_after = projr (special tied_heap OPTIMISE tied_team)"


text \<open>A team that has been assembled: its container is no longer the array.\<close>

definition assembled :: "PokeTeam \<Rightarrow> bool" where
  "assembled self = (case team self of ArrayR arr \<Rightarrow> False | _ \<Rightarrow> True)"

section \<open>Damage tiers\<close>

text \<open>
  Claim C6. \<open>attack\<close> computes the damage by tiers on the defender's defence against the
  attacker's battle power: power - defence when defence < power/2, the ceiling of
  power*5/8 - defence/4 when power/2 <= defence < power, the ceiling of power/4 otherwise;
  the result is multiplied by the type effectiveness. With battle power 10 and defence 5
  the middle tier applies (the comparison with power/2 is strict): that damage is 5.
\<close>

theorem attack_tiers:
  "attack eff a d =
     (if defence d < battle_power a / 2 then battle_power a - defence d
      else if defence d < battle_power a
        then of_int \<lceil>battle_power a * 5 / 8 - defence d / 4\<rceil>
      else of_int \<lceil>battle_power a / 4\<rceil>) * eff (poketype a) (poketype d)
   \<and> (battle_power a = 10 \<and> defence d = 5 \<longrightarrow>
        attack eff a d = 5 * eff (poketype a) (poketype d)
        \<and> attack eff a d = of_int \<lceil>battle_power a * 5 / 8 - defence d / 4\<rceil>
                             * eff (poketype a) (poketype d))"
  by (simp add: attack_def attack_damage_def Let_def)

theorem attack_tiers_witness:
  "battle_power (pokemon ''A'' FIRE 20 10 3 7 []) = 10
   \<and> defence (pokemon ''B'' WATER 20 4 5 6 []) = 5
   \<and> attack neutral (pokemon ''A'' FIRE 20 10 3 7 []) (pokemon ''B'' WATER 20 4 5 6 []) = 5"
  using attack_tiers[of neutral "pokemon ''A'' FIRE 20 10 3 7 []" "pokemon ''B'' WATER 20 4 5 6 []"]
  by (simp add: pokemon_def neutral_def)

section \<open>Indexed access\<close>

lemma stack_out_found:
  "n < length s \<Longrightarrow>
   stack_out (int (k + n)) [k..<k + length s] s temp =
     Inr (drop (Suc n) s, rev (take (Suc n) s) @ temp, Some (s ! n))"
proof (induction s arbitrary: k n temp)
  case Nil
  then show ?case by simp
next
  case (Cons x s)
  have up: "[k..<Suc (k + length s)] = k # [Suc k..<Suc (k + length s)]"
    by (simp add: upt_rec)
  show ?case
  proof (cases n)
    case 0
    then show ?thesis by (simp add: up pop_def push_def peek_def del: upt_Suc)
  next
    case (Suc m)
    with Cons.prems have "m < length s" by simp
    from Cons.IH[OF this, of "Suc k" "x # temp"] Suc
    show ?thesis by (simp add: up pop_def push_def del: upt_Suc)
  qed
qed

lemma stack_back_all:
  "stack_back (length temp) s temp = Inr (rev temp @ s)"
  by (induction temp arbitrary: s) (simp_all add: pop_def push_def)

lemma queue_cycle_rotates:
  "n \<le> length q \<Longrightarrow>
   queue_cycle index [k..<k + n] q found =
     Inr (drop n q @ take n q,
          if int k \<le> index \<and> index < int (k + n) then Some (q ! (nat index - k)) else found)"
proof (induction n arbitrary: k q found)
  case 0
  then show ?case by auto
next
  case (Suc n)
  then obtain x q' where q: "q = x # q'" by (cases q) auto
  have up: "[k..<k + Suc n] = k # [Suc k..<Suc k + n]"
    by (simp add: upt_rec)
  have len: "n \<le> length (q' @ [x])" using Suc.prems q by simp
  have nth: "(q' @ [x]) ! (nat index - Suc k) = (x # q') ! (nat index - k)"
    if a: "int (Suc k) \<le> index" "index < int (Suc k + n)"
  proof -
    define m where "m = nat index - Suc k"
    have m: "nat index - k = Suc m" "m < length q'"
      using a Suc.prems q by (simp_all add: m_def)
    show ?thesis unfolding m_def[symmetric] m by (simp add: nth_append m)
  qed
  show ?case
    unfolding up q
    using Suc.IH[OF len, of "Suc k"] Suc.prems q nth
    by (auto simp: serve_def append_queue_def)
qed

text \<open>
  Claim C10. Indexed access is non-destructive for every container: at a valid index the
  Pokemon at that position from the front is returned and the team is left exactly as it
  was, so that its size and its order are those before the access.
\<close>

theorem getitem_non_destructive:
  assumes "0 \<le> index" and "index < int (length (order self))"
  shows "getitem self index = Inr (order self ! nat index, self)"
proof (cases "team self")
  case (ArrayR arr)
  with assms show ?thesis by (simp add: getitem_def order_def)
next
  case (ArrayStack s)
  with assms have n: "nat index < length s" by (simp add: order_def)
  have idx: "int (0 + nat index) = index" using assms by simp
  have out: "stack_out index [0..<length s] s [] =
        Inr (drop (Suc (nat index)) s, rev (take (Suc (nat index)) s) @ [], Some (s ! nat index))"
    using stack_out_found[OF n, of 0 Nil] unfolding idx by simp
  have refill: "stack_back (length (rev (take (Suc (nat index)) s)))
                 (drop (Suc (nat index)) s) (rev (take (Suc (nat index)) s)) = Inr s"
    by (simp only: stack_back_all rev_rev_ident append_take_drop_id)
  have same: "self\<lparr>team := ArrayStack s\<rparr> = self" using ArrayStack by simp
  show ?thesis
    using n refill by (simp add: getitem_def ArrayStack out order_def same)
next
  case (CircularQueue q)
  with assms have n: "nat index < length q" by (simp add: order_def)
  have cyc: "queue_cycle index [0..<length q] q None = Inr (q, Some (q ! nat index))"
    using queue_cycle_rotates[of "length q" q index 0 None] assms n by simp
  have same: "self\<lparr>team := CircularQueue q\<rparr> = self" using CircularQueue by simp
  show ?thesis
    using n by (simp add: getitem_def CircularQueue cyc order_def same)
next
  case (ArraySortedList xs)
  with assms show ?thesis by (simp add: getitem_def order_def)
qed

theorem getitem_non_destructive_witness:
  "(0::int) \<le> 1 \<and> 1 < int (length (order (poke_team (ArrayStack [7, 8, 9]) [Some 9, Some 8, Some 7])))
   \<and> getitem (poke_team (ArrayStack [7, 8, 9]) [Some 9, Some 8, Some 7]) 1
       = Inr (Some 8, poke_team (ArrayStack [7, 8, 9]) [Some 9, Some 8, Some 7])"
  using getitem_non_destructive[of 1 "poke_team (ArrayStack [7, 8, 9]) [Some 9, Some 8, Some 7]"]
  by (simp add: order_def poke_team_def)

section \<open>State accessors\<close>

lemma heap_print [simp]: "heap (print evs b) = heap b"
  by (simp add: print_def)

lemma heap_set_team [simp]: "heap (set_team sd t b) = heap b"
  by (cases sd) (simp_all add: set_team_def set_trainer_def)

lemma heap_set_pokemon [simp]: "heap (set_pokemon a p b) = (heap b)(a := p)"
  by (simp add: set_pokemon_def)

lemma heap_registered [simp]: "heap (registered p1 p2 b) = heap b"
  by (simp add: registered_def print_def)

lemma get_team_print [simp]: "get_team sd (print evs b) = get_team sd b"
  by (cases sd) (simp_all add: print_def get_team_def trainer_def)

lemma get_team_set_pokemon [simp]: "get_team sd (set_pokemon a p b) = get_team sd b"
  by (cases sd) (simp_all add: set_pokemon_def get_team_def trainer_def)

lemma get_team_set_team [simp]:
  "get_team sd (set_team sd' t b) = (if sd = sd' then t else get_team sd b)"
  by (cases sd; cases sd') (simp_all add: set_team_def set_trainer_def get_team_def trainer_def)

lemma get_team_registered [simp]: "get_team sd (registered p1 p2 b) = get_team sd b"
  by (cases sd)
     (simp_all add: registered_def print_def get_team_def trainer_def register_pokemon_def)

lemma round_one_type: "round (20 / 3 :: rat) = 7"
  unfolding round_def by (rule floor_unique) simp_all

lemma double_values:
  "double (7 / 100) = 1261007895663739 / 18014398509481984"
  "double 1 = 1"
  "double 19 = 19"
  by code_simp+

text \<open>
  The damage 13 between completions 0.07 and 0.13: the doubles give 8, not the 7 of
  the exact quotient.
\<close>

lemma double_scaling_example:
  "\<lceil>double (13 * double (double (7 / 100) / double (13 / 100)))\<rceil> = 8"
  "\<lceil>(13::rat) * ((7 / 100) / (13 / 100))\<rceil> = 7"
  by code_simp+

lemmas battle_eval = double_values fight_def battle_of_def heap_of_def pokemon_def neutral_def
     attack_and_defend_def attack_def attack_damage_def defend_def is_alive_def killed_def
     get_pokedex_completion_def register_pokemon_def trainer_def bind_def
     deduct_two_def Let_def print_def set_pokemon_def get_team_def set_team_def set_trainer_def
     remove_pokemon_def poke_team_def pop_def serve_def delete_at_index_def level_up_def evolve_def
     returns_def result_state_def order_def round_one_type registered_def

section \<open>Fainting from a direct attack\<close>

lemma level_up_level:
  "level_up p = Inr (evs, p') \<Longrightarrow> level p' = level p + 1"
  by (auto simp: level_up_def evolve_def Let_def split: option.splits if_splits)

lemma defend_level [simp]: "level (defend p d) = level p"
  by (simp add: defend_def Let_def)

lemma remove_pokemon_order:
  "remove_pokemon t = Inr t' \<Longrightarrow> assembled t \<Longrightarrow> order t' = tl (order t) \<and> order t \<noteq> []"
  by (auto simp: remove_pokemon_def assembled_def order_def pop_def serve_def
                 delete_at_index_def drop_Suc map_tl
           split: adt.splits list.splits sum.splits if_splits)

text \<open>
  Claim C1 states that the attacker is not levelled up when the defender faints from the
  direct attack. In \<open>duel\<close>, after the registrations of \<open>fight\<close>, the attack of A makes B
  faint, and A goes from level 1 to level 2.
\<close>

theorem attack_and_defend_faint_counterexample:
  "returns (attack_and_defend neutral 0 1 First Second (registered 0 1 duel))
   \<and> \<not> is_alive (heap (result_state (attack_and_defend neutral 0 1 First Second
                                        (registered 0 1 duel)) duel) 1)
   \<and> level (heap (registered 0 1 duel) 0) = 1
   \<and> level (heap (result_state (attack_and_defend neutral 0 1 First Second
                                   (registered 0 1 duel)) duel) 0) = 2"
  by (simp add: duel_def battle_eval)

lemma level_up_alive:
  "level_up p = Inr (evs, p') \<Longrightarrow> is_alive p \<Longrightarrow> is_alive p'"
  by (auto simp: level_up_def evolve_def Let_def is_alive_def split: option.splits if_splits)

text \<open>
  Claim C1, amended. Take an attack between two Pokemon of different speeds, by an
  attacker that is alive. When \<open>attack\_and\_defend\<close> returns and has left the defender
  with health 0 or below, \<open>killed\<close> has run with \<open>together\_dead = False\<close>: the front of
  the defending trainer's team has been removed by \<open>remove\_pokemon\<close> (on an assembled
  team the order loses its first element), and the attacker, still alive, has gone up one
  level. The attacks of an equal-speed clash are left out of this statement.
\<close>

theorem attack_and_defend_faint_levels_up:
  assumes "attack_and_defend eff attacker defender trainer_attacker trainer_defender b
             = Return () b'"
    and "\<not> is_alive (heap b' defender)"
    and "is_alive (heap b attacker)"
    and "speed (heap b attacker) \<noteq> speed (heap b defender)"
  shows "remove_pokemon (get_team trainer_defender b) = Inr (get_team trainer_defender b')
         \<and> (assembled (get_team trainer_defender b) \<longrightarrow>
              order (get_team trainer_defender b') = tl (order (get_team trainer_defender b)))
         \<and> level (heap b' attacker) = level (heap b attacker) + 1
         \<and> is_alive (heap b' attacker)"
proof -
  have neq: "attacker \<noteq> defender" using assms(4) by auto
  have rm: "remove_pokemon (get_team trainer_defender b) = Inr (get_team trainer_defender b')"
    and lv: "level (heap b' attacker) = level (heap b attacker) + 1"
    using assms(1,2)
    by (auto simp: attack_and_defend_def killed_def Let_def
             split: if_splits sum.splits prod.splits dest!: level_up_level)
  have al: "is_alive (heap b' attacker)"
    using assms(1,2,3) neq
    by (auto simp: attack_and_defend_def killed_def Let_def
             split: if_splits sum.splits prod.splits dest!: level_up_alive)
  from rm lv al remove_pokemon_order[OF rm] show ?thesis by simp
qed

theorem attack_and_defend_faint_levels_up_witness:
  "attack_and_defend neutral 0 1 First Second (registered 0 1 duel)
     = Return () (result_state (attack_and_defend neutral 0 1 First Second
                                  (registered 0 1 duel)) duel)
   \<and> \<not> is_alive (heap (result_state (attack_and_defend neutral 0 1 First Second
                                        (registered 0 1 duel)) duel) 1)
   \<and> is_alive (heap (registered 0 1 duel) 0)
   \<and> speed (heap (registered 0 1 duel) 0) \<noteq> speed (heap (registered 0 1 duel) 1)
   \<and> assembled (get_team Second (registered 0 1 duel))
   \<and> order (get_team Second (registered 0 1 duel)) = [Some 1]
   \<and> order (get_team Second (result_state (attack_and_defend neutral 0 1 First Second
                                              (registered 0 1 duel)) duel)) = []
   \<and> level (heap (result_state (attack_and_defend neutral 0 1 First Second
                                   (registered 0 1 duel)) duel) 0)
       = level (heap (registered 0 1 duel) 0) + 1
   \<and> is_alive (heap (result_state (attack_and_defend neutral 0 1 First Second
                                      (registered 0 1 duel)) duel) 0)"
proof -
  have r: "attack_and_defend neutral 0 1 First Second (registered 0 1 duel)
     = Return () (result_state (attack_and_defend neutral 0 1 First Second
                                  (registered 0 1 duel)) duel)"
    by (simp add: duel_def battle_eval)
  have d: "\<not> is_alive (heap (result_state (attack_and_defend neutral 0 1 First Second
                                        (registered 0 1 duel)) duel) 1)"
    by (simp add: duel_def battle_eval)
  have l: "is_alive (heap (registered 0 1 duel) 0)"
    by (simp add: duel_def battle_eval)
  have s: "speed (heap (registered 0 1 duel) 0) \<noteq> speed (heap (registered 0 1 duel) 1)"
    by (simp add: duel_def battle_eval)
  have a: "assembled (get_team Second (registered 0 1 duel))"
    by (simp add: duel_def battle_eval assembled_def)
  have o: "order (get_team Second (registered 0 1 duel)) = [Some 1]"
    by (simp add: duel_def battle_eval)
  from attack_and_defend_faint_levels_up[OF r d l s] r d l s a o show ?thesis by simp
qed

section \<open>Simultaneous attacks\<close>

text \<open>
  Claim C2 (evaluation of the code at the failing input). In \<open>twins\<close> the speeds are
  equal and each attack is lethal. Both Pokemon faint and both teams are emptied in the
  round, and both Pokemon go from level 1 to level 2: each \<open>attack\_and\_defend\<close> calls
  \<open>killed\<close> with \<open>together\_dead = False\<close>.
\<close>

theorem fight_simultaneous_both_level_up:
  "speed (heap twins 0) = speed (heap twins 1)
   \<and> returns (fight neutral 0 1 twins)
   \<and> \<not> is_alive (heap (result_state (fight neutral 0 1 twins) twins) 0)
   \<and> \<not> is_alive (heap (result_state (fight neutral 0 1 twins) twins) 1)
   \<and> order (get_team First (result_state (fight neutral 0 1 twins) twins)) = []
   \<and> order (get_team Second (result_state (fight neutral 0 1 twins) twins)) = []
   \<and> level (heap twins 0) = 1 \<and> level (heap twins 1) = 1
   \<and> level (heap (result_state (fight neutral 0 1 twins) twins) 0) = 2
   \<and> level (heap (result_state (fight neutral 0 1 twins) twins) 1) = 2"
  by (simp add: twins_def battle_eval)

section \<open>Order of attack\<close>

text \<open>
  Claim C9. When the two Pokemon have different speeds, the faster one attacks first
  through \<open>attack\_and\_defend\<close>; the slower one attacks back if and only if it is alive
  after that attack. When it is not, the clash ends in the state the first attack left.
\<close>

theorem fight_faster_first:
  assumes "speed (heap b p1) \<noteq> speed (heap b p2)"
  shows "fight eff p1 p2 b =
     (let faster = (if speed (heap b p1) > speed (heap b p2) then p1 else p2);
          slower = (if speed (heap b p1) > speed (heap b p2) then p2 else p1);
          trainer_faster = (if speed (heap b p1) > speed (heap b p2) then First else Second);
          trainer_slower = (if speed (heap b p1) > speed (heap b p2) then Second else First)
      in case attack_and_defend eff faster slower trainer_faster trainer_slower
                (registered p1 p2 b) of
           Return u b4 \<Rightarrow>
             if is_alive (heap b4 slower)
             then bind (attack_and_defend eff slower faster trainer_slower trainer_faster b4)
                    (\<lambda>u. chip p1 p2)
             else Return () b4
         | Raise e b4 \<Rightarrow> Raise e b4
         | OutOfFuel \<Rightarrow> OutOfFuel)"
proof -
  have neq: "p1 \<noteq> p2" using assms by auto
  show ?thesis
    using assms neq
    by (auto simp: fight_def registered_def chip_def Let_def bind_def print_def
             split: result.splits)
qed

theorem fight_faster_first_witness:
  "speed (heap duel 0) \<noteq> speed (heap duel 1)
   \<and> fight neutral 0 1 duel = attack_and_defend neutral 0 1 First Second (registered 0 1 duel)"
proof -
  define b4 where
    "b4 = result_state (attack_and_defend neutral 0 1 First Second (registered 0 1 duel)) duel"
  have s: "speed (heap duel 0) \<noteq> speed (heap duel 1)"
    by (simp add: duel_def battle_eval)
  have f: "speed (heap duel 0) > speed (heap duel 1)"
    by (simp add: duel_def battle_eval)
  have r: "attack_and_defend neutral 0 1 First Second (registered 0 1 duel) = Return () b4"
    by (simp add: b4_def duel_def battle_eval)
  have d: "\<not> is_alive (heap b4 1)"
    by (simp add: b4_def duel_def battle_eval)
  have "fight neutral 0 1 duel = Return () b4"
    using fight_faster_first[OF s, of neutral]
    unfolding Let_def if_P[OF f] r result.case if_not_P[OF d] .
  with s r show ?thesis by simp
qed

section \<open>Starting a battle\<close>

lemma never_no_teams_simps [simp]:
  "never_no_teams (Return x b)" "never_no_teams OutOfFuel"
  "never_no_teams (Raise e b) = (e \<noteq> NoTeams)"
  by (auto simp: never_no_teams_def)

lemma never_no_teams_bind:
  "never_no_teams r \<Longrightarrow> (\<And>x b. never_no_teams (f x b)) \<Longrightarrow> never_no_teams (bind r f)"
  by (cases r) (auto simp: bind_def)

lemma remove_pokemon_error: "remove_pokemon t = Inl e \<Longrightarrow> e \<noteq> NoTeams"
  by (auto simp: remove_pokemon_def pop_def serve_def delete_at_index_def
           split: adt.splits list.splits sum.splits if_splits)

lemma level_up_error: "level_up p = Inl (e, p') \<Longrightarrow> e \<noteq> NoTeams"
  by (auto simp: level_up_def evolve_def Let_def split: option.splits if_splits sum.splits)

lemma killed_never_no_teams: "never_no_teams (killed w d t td b)"
  by (auto simp: killed_def Let_def split: sum.splits prod.splits
           dest: remove_pokemon_error level_up_error)

lemma attack_and_defend_never_no_teams:
  "never_no_teams (attack_and_defend eff a d ta td b)"
  by (simp add: attack_and_defend_def Let_def killed_never_no_teams)

lemma deduct_two_never_no_teams: "never_no_teams (deduct_two p1 p2 b)"
  by (simp add: deduct_two_def Let_def killed_never_no_teams never_no_teams_bind)

lemma fight_never_no_teams: "never_no_teams (fight eff p1 p2 b)"
  by (auto simp: fight_def Let_def attack_and_defend_never_no_teams
        deduct_two_never_no_teams intro!: never_no_teams_bind)

lemma stack_out_error: "stack_out i is s t = Inl e \<Longrightarrow> e \<noteq> NoTeams"
  by (induction i "is" s t rule: stack_out.induct)
     (auto simp: pop_def peek_def push_def Let_def split: list.splits sum.splits if_splits)

lemma stack_back_error: "stack_back n s t = Inl e \<Longrightarrow> e \<noteq> NoTeams"
  by (induction n s t rule: stack_back.induct)
     (auto simp: pop_def split: list.splits sum.splits)

lemma queue_cycle_error: "queue_cycle i is q f = Inl e \<Longrightarrow> e \<noteq> NoTeams"
  by (induction i "is" q f rule: queue_cycle.induct)
     (auto simp: serve_def split: list.splits sum.splits)

lemma getitem_error: "getitem t i = Inl e \<Longrightarrow> e \<noteq> NoTeams"
  by (auto simp: getitem_def split: adt.splits sum.splits prod.splits option.splits if_splits
           dest: stack_out_error stack_back_error queue_cycle_error)

lemma fight_enemy_pokemon_never_no_teams: "never_no_teams (fight_enemy_pokemon eff b)"
  by (auto simp: fight_enemy_pokemon_def Let_def fight_never_no_teams
           split: sum.splits prod.splits option.splits
           dest: getitem_error intro!: never_no_teams_bind)

lemma rounds_never_no_teams:
  "(\<And>ps b. never_no_teams (after ps b)) \<Longrightarrow> never_no_teams (rounds eff after fuel i b)"
  by (induction fuel arbitrary: i b)
     (auto intro!: never_no_teams_bind fight_enemy_pokemon_never_no_teams)

lemma rotate_pokemon_error: "rotate_pokemon t = Inl e \<Longrightarrow> e \<noteq> NoTeams"
  by (auto simp: rotate_pokemon_def serve_def split: adt.splits list.splits sum.splits)

lemma rotate_after_never_no_teams: "never_no_teams (rotate_after ps b)"
  by (auto simp: rotate_after_def split: prod.splits sum.splits
           intro!: never_no_teams_bind dest: rotate_pokemon_error)

lemma assign_loop_error: "assign_loop h c ord xs is acc = Inl e \<Longrightarrow> e \<noteq> NoTeams"
  by (induction h c ord xs "is" acc rule: assign_loop.induct)
     (auto simp: Let_def split: if_splits)

lemma assign_team_error: "assign_team h c t = Inl e \<Longrightarrow> e \<noteq> NoTeams"
  by (auto simp: assign_team_def Let_def split: adt.splits sum.splits dest: assign_loop_error)

lemma optimise_after_never_no_teams: "never_no_teams (optimise_after ps b)"
  by (auto simp: optimise_after_def Let_def split: sum.splits dest: assign_team_error)

lemma battles_never_no_teams:
  "never_no_teams (set_battle eff fuel b)"
  "never_no_teams (rotate_battle eff fuel b)"
  "never_no_teams (optimise_battle eff fuel b)"
  by (auto simp: set_battle_def rotate_battle_def optimise_battle_def
           intro!: never_no_teams_bind rounds_never_no_teams
                   rotate_after_never_no_teams optimise_after_never_no_teams)

text \<open>
  Claim C8. \<open>commence\_battle\<close> raises its error if and only if a team is empty at entry.
  It then raises in the state it was called in: nothing has been printed and no round
  has been played. With two non-empty teams that error is never raised.
\<close>

theorem commence_battle_no_teams:
  "(len_team (get_team First b) = 0 \<or> len_team (get_team Second b) = 0
      \<longrightarrow> commence_battle eff fuel b = Raise NoTeams b)
   \<and> (len_team (get_team First b) > 0 \<and> len_team (get_team Second b) > 0
      \<longrightarrow> (\<forall>b'. commence_battle eff fuel b \<noteq> Raise NoTeams b'))"
proof -
  have "never_no_teams (bind (case battle_mode b of
                SET \<Rightarrow> set_battle eff fuel b
              | ROTATE \<Rightarrow> rotate_battle eff fuel b
              | OPTIMISE \<Rightarrow> optimise_battle eff fuel b) f)"
    if "\<And>x b. never_no_teams (f x b)" for f :: "side option \<Rightarrow> Battle \<Rightarrow> side option result"
    using that by (cases "battle_mode b") (auto intro!: never_no_teams_bind battles_never_no_teams)
  then show ?thesis
    unfolding commence_battle_def
    by (auto simp: never_no_teams_def split: option.splits side.splits)
qed

theorem commence_battle_no_teams_witness:
  "(len_team (get_team First walkover) = 0 \<or> len_team (get_team Second walkover) = 0)
   \<and> commence_battle neutral 3 walkover = Raise NoTeams walkover
   \<and> len_team (get_team First duel) > 0 \<and> len_team (get_team Second duel) > 0
   \<and> commence_battle neutral 3 duel \<noteq> Raise NoTeams duel"
proof -
  have w: "len_team (get_team First walkover) = 0 \<or> len_team (get_team Second walkover) = 0"
    by (simp add: walkover_def battle_of_def get_team_def trainer_def len_team_def poke_team_def)
  have d: "len_team (get_team First duel) > 0 \<and> len_team (get_team Second duel) > 0"
    by (simp add: duel_def battle_of_def get_team_def trainer_def len_team_def poke_team_def)
  from commence_battle_no_teams[of walkover neutral 3] commence_battle_no_teams[of duel neutral 3]
    w d show ?thesis by blast
qed

section \<open>The snapshot of a team\<close>

lemma leaves_simps [simp]:
  "leaves P (Return x b) = P b" "leaves P (Raise e b) = P b" "leaves P OutOfFuel"
  by (simp_all add: leaves_def)

lemma leaves_bind:
  "leaves P r \<Longrightarrow> (\<And>x b. P b \<Longrightarrow> leaves P (f x b)) \<Longrightarrow> leaves P (bind r f)"
  by (cases r) (auto simp: bind_def)

lemma trainer_team_register [simp]: "trainer_team (register_pokemon p t) = trainer_team t"
  by (simp add: register_pokemon_def)

lemma originals_simps [simp]:
  "originals (print evs b) = originals b"
  "originals (set_pokemon a p b) = originals b"
  "originals (b\<lparr>trainer_1 := register_pokemon q (trainer_1 b)\<rparr>) = originals b"
  "originals (b\<lparr>trainer_2 := register_pokemon q (trainer_2 b)\<rparr>) = originals b"
  by (simp_all add: originals_def get_team_def trainer_def print_def set_pokemon_def)

lemma originals_registered:
  "originals (b0\<lparr>trainer_1 := register_pokemon q (trainer_1 b0)\<rparr>) = originals b0"
  "originals (b0\<lparr>trainer_2 := register_pokemon q (trainer_2 b0)\<rparr>) = originals b0"
  "originals (b0\<lparr>trainer_1 := register_pokemon q (trainer_1 b0),
                   trainer_2 := register_pokemon q' (trainer_2 b0)\<rparr>) = originals b0"
  by (simp_all add: originals_def get_team_def trainer_def)

lemma originals_set_team:
  "original_team t = original_team (get_team sd b) \<Longrightarrow> originals (set_team sd t b) = originals b"
  by (cases sd) (simp_all add: originals_def)

lemma remove_pokemon_original: "remove_pokemon t = Inr t' \<Longrightarrow> original_team t' = original_team t"
  by (auto simp: remove_pokemon_def split: adt.splits sum.splits prod.splits)

lemma rotate_pokemon_original: "rotate_pokemon t = Inr t' \<Longrightarrow> original_team t' = original_team t"
  by (auto simp: rotate_pokemon_def split: adt.splits sum.splits prod.splits)

lemma getitem_original: "getitem t i = Inr (p, t') \<Longrightarrow> original_team t' = original_team t"
  by (auto simp: getitem_def split: adt.splits sum.splits prod.splits option.splits if_splits)

lemma assign_team_original: "assign_team h c t = Inr t' \<Longrightarrow> original_team t' = original_team t"
  by (auto simp: assign_team_def Let_def split: adt.splits sum.splits)

lemma killed_originals:
  "originals b = os \<Longrightarrow> leaves (\<lambda>b'. originals b' = os) (killed w d td tog b)"
  by (auto simp: killed_def Let_def originals_set_team
           split: sum.splits prod.splits dest!: remove_pokemon_original)

lemma attack_and_defend_originals:
  "originals b = os \<Longrightarrow> leaves (\<lambda>b'. originals b' = os) (attack_and_defend eff a d ta td b)"
  by (simp add: attack_and_defend_def Let_def killed_originals)

lemma deduct_two_originals:
  "originals b = os \<Longrightarrow> leaves (\<lambda>b'. originals b' = os) (deduct_two p1 p2 b)"
  by (auto simp: deduct_two_def Let_def intro!: leaves_bind killed_originals)

lemma fight_phases:
  "fight eff p1 p2 b = bind (clash eff p1 p2 (registered p1 p2 b)) (\<lambda>u. chip p1 p2)"
proof -
  have "p1 \<noteq> p2" if "speed (heap b p1) \<noteq> speed (heap b p2)" using that by auto
  then show ?thesis
    by (auto simp: fight_def clash_def registered_def chip_def Let_def print_def
             intro!: arg_cong2[where f=bind] ext)
qed

lemma originals_registered' [simp]: "originals (registered p1 p2 b) = originals b"
  by (simp add: originals_def)

lemma clash_originals:
  "originals b = os \<Longrightarrow> leaves (\<lambda>b'. originals b' = os) (clash eff p1 p2 b)"
  by (auto simp: clash_def intro!: leaves_bind attack_and_defend_originals)

lemma chip_originals:
  "originals b = os \<Longrightarrow> leaves (\<lambda>b'. originals b' = os) (chip p1 p2 b)"
  by (auto simp: chip_def intro!: deduct_two_originals)

lemma fight_originals:
  "originals b = os \<Longrightarrow> leaves (\<lambda>b'. originals b' = os) (fight eff p1 p2 b)"
  unfolding fight_phases
  by (auto intro!: leaves_bind clash_originals chip_originals)

lemma fight_enemy_pokemon_originals:
  "originals b = os \<Longrightarrow> leaves (\<lambda>b'. originals b' = os) (fight_enemy_pokemon eff b)"
  by (auto simp: fight_enemy_pokemon_def Let_def originals_set_team
           split: sum.splits prod.splits option.splits
           dest!: getitem_original intro!: leaves_bind fight_originals)
     (simp_all add: originals_def get_team_def trainer_def print_def set_team_def set_trainer_def)


lemma rounds_leaves:
  assumes after: "\<And>ps b. P b \<Longrightarrow> leaves P (after ps b)"
    and fep: "\<And>b. P b \<Longrightarrow> leaves P (fight_enemy_pokemon eff b)"
    and pr: "\<And>evs b. P b \<Longrightarrow> P (print evs b)"
  shows "P b \<Longrightarrow> leaves P (rounds eff after fuel i b)"
proof (induction fuel arbitrary: i b)
  case 0
  then show ?case by simp
next
  case (Suc fuel)
  show ?case
  proof (cases "len_team (get_team First b) > 0 \<and> len_team (get_team Second b) > 0")
    case True
    have "leaves P (bind (bind (fight_enemy_pokemon eff (print [Round (i + 1)] b)) after)
                      (\<lambda>u. rounds eff after fuel (i + 1)))"
      by (intro leaves_bind fep pr Suc.prems after Suc.IH)
    with True show ?thesis by simp
  next
    case False
    with Suc.prems show ?thesis by auto
  qed
qed

lemma rounds_originals:
  assumes "\<And>ps b. originals b = os \<Longrightarrow> leaves (\<lambda>b'. originals b' = os) (after ps b)"
  shows "originals b = os \<Longrightarrow> leaves (\<lambda>b'. originals b' = os) (rounds eff after fuel i b)"
  by (rule rounds_leaves[where P="\<lambda>b'. originals b' = os"])
     (simp_all add: assms fight_enemy_pokemon_originals)

lemma rotate_after_originals:
  "originals b = os \<Longrightarrow> leaves (\<lambda>b'. originals b' = os) (rotate_after ps b)"
  by (auto simp: rotate_after_def originals_set_team split: prod.splits sum.splits
           intro!: leaves_bind dest!: rotate_pokemon_original)

lemma optimise_after_originals:
  "originals b = os \<Longrightarrow> leaves (\<lambda>b'. originals b' = os) (optimise_after ps b)"
  by (auto simp: optimise_after_def Let_def originals_set_team split: sum.splits
           dest!: assign_team_original)

lemma originals_announce [simp]: "originals (announce b) = originals b"
  by (simp add: announce_def)

lemma battles_originals:
  assumes "originals b = os"
  shows "leaves (\<lambda>b'. originals b' = os) (set_battle eff fuel b)"
    and "leaves (\<lambda>b'. originals b' = os) (rotate_battle eff fuel b)"
    and "leaves (\<lambda>b'. originals b' = os) (optimise_battle eff fuel b)"
  using assms
  by (auto simp: set_battle_def rotate_battle_def optimise_battle_def
           intro!: leaves_bind rounds_originals rotate_after_originals optimise_after_originals)

lemma commence_battle_originals:
  "leaves (\<lambda>b'. originals b' = originals b) (commence_battle eff fuel b)"
  unfolding commence_battle_def
  by (cases "battle_mode b")
     (auto intro!: leaves_bind battles_originals split: option.splits side.splits)

lemma leaves_result_state: "leaves P r \<Longrightarrow> P b \<Longrightarrow> P (result_state r b)"
  by (cases r) (simp_all add: result_state_def)

lemma set_add: "set (add item xs) = insert item (set xs)"
proof -
  have "set (take i xs @ item # drop i xs) = insert item (set xs)" for i
  proof -
    have "set (take i xs) \<union> set (drop i xs) = set xs"
      by (metis append_take_drop_id set_append)
    then show ?thesis by auto
  qed
  then show ?thesis unfolding add_def Let_def .
qed

lemma assemble_loop_refs:
  "assemble_loop h n c arr is acc = Inr acc' \<Longrightarrow>
   set (adt_order acc') \<subseteq> set (adt_order acc) \<union> set arr"
proof (induction "is" arbitrary: acc)
  case Nil
  then show ?case by simp
next
  case (Cons i "is")
  from Cons.prems obtain p where i: "i < length arr" and p: "arr ! i = Some p"
    by (auto split: if_splits option.splits)
  have mem: "Some p \<in> set arr" using i p by (metis nth_mem)
  show ?case
  proof (cases acc)
    case (ArrayR a)
    with Cons.prems i p show ?thesis by simp
  next
    case (ArrayStack s)
    with Cons.prems i p have "assemble_loop h n c arr is (ArrayStack (push p s)) = Inr acc'"
      by simp
    from Cons.IH[OF this] mem ArrayStack show ?thesis by (auto simp: push_def)
  next
    case (CircularQueue q)
    with Cons.prems i p
    have "assemble_loop h n c arr is (CircularQueue (append_queue p q)) = Inr acc'"
      by simp
    from Cons.IH[OF this] mem CircularQueue show ?thesis by (auto simp: append_queue_def)
  next
    case (ArraySortedList xs)
    with Cons.prems i p
    have "assemble_loop h n c arr is
            (ArraySortedList (add (p, (get_criterion (the c) (h p), 0)) xs)) = Inr acc'"
      by (simp split: if_splits)
    from Cons.IH[OF this] mem ArraySortedList show ?thesis by (auto simp: set_add)
  qed
qed

lemma assemble_team_refs:
  "assemble_team h m c t = Inr t' \<Longrightarrow>
   original_team t' = original_team t \<and> set (order t') \<subseteq> set (order t)"
  by (auto simp: assemble_team_def Let_def order_def
           split: if_splits adt.splits sum.splits BattleMode.splits
           dest!: assemble_loop_refs)

lemma choose_randomly_alias:
  "choose_randomly draws h t = Inr (h', t') \<Longrightarrow> team t' = ArrayR (original_team t')"
  by (auto simp: choose_randomly_def split: adt.splits prod.splits)


lemmas arena_eval = arena_def six_a_def six_b_def drawn_def choose_randomly_def
  PokeTeam_init_def TEAM_LIMIT_def assemble_team_def eval_nat_numeral upt_rec
  append_queue_def original_stats_def

text \<open>
  Claim C4 states that the stats recorded by \<open>original\_team\<close> are unchanged by combat.
  In \<open>arena\<close> the snapshot of the second team records health 10 for its first Pokemon;
  after one \<open>fight\<close> between the two fronts it records health -9.
\<close>

theorem snapshot_counterexample:
  "map (map_option health) (original_stats (heap arena) (get_team Second arena))
     = [Some 10, Some 10, Some 10, Some 10, Some 10, Some 10]
   \<and> returns (fight neutral 0 6 arena)
   \<and> map (map_option health)
         (original_stats (heap (result_state (fight neutral 0 6 arena) arena))
                         (get_team Second (result_state (fight neutral 0 6 arena) arena)))
     = [Some (- 9), Some 10, Some 10, Some 10, Some 10, Some 10]"
  by (simp add: arena_eval battle_eval)

text \<open>
  Claim C4, amended. The references held by \<open>original\_team\<close> are never changed by
  combat: whatever \<open>commence\_battle\<close> does, it leaves \<open>original\_team\<close> of both teams as
  it was. The snapshot holds no copies: \<open>choose\_randomly\<close> makes \<open>original\_team\<close> the
  team's own array of references, and \<open>assemble\_team\<close> keeps it and puts references of
  that array into the live container. The live Pokemon are thus objects of the snapshot,
  and what the snapshot records of them is their current state.
\<close>

theorem original_team_frame:
  "original_team (get_team sd (result_state (commence_battle eff fuel b) b))
     = original_team (get_team sd b)
   \<and> (choose_randomly draws h t = Inr (h1, t1) \<longrightarrow> team t1 = ArrayR (original_team t1))
   \<and> (choose_randomly draws h t = Inr (h1, t1) \<longrightarrow> assemble_team h2 m c t1 = Inr t2 \<longrightarrow>
        original_team t2 = original_team t1 \<and> set (order t2) \<subseteq> set (original_team t2))"
proof -
  have "originals (result_state (commence_battle eff fuel b) b) = originals b"
    using leaves_result_state[OF commence_battle_originals[of b eff fuel], of b] by simp
  then have 1: "original_team (get_team sd (result_state (commence_battle eff fuel b) b))
     = original_team (get_team sd b)"
    by (cases sd) (simp_all add: originals_def)
  have 3: "original_team t2 = original_team t1 \<and> set (order t2) \<subseteq> set (original_team t2)"
    if "choose_randomly draws h t = Inr (h1, t1)" "assemble_team h2 m c t1 = Inr t2"
    using assemble_team_refs[OF that(2)] choose_randomly_alias[OF that(1)]
    by (simp add: order_def)
  from 1 3 choose_randomly_alias show ?thesis by blast
qed

theorem original_team_frame_witness:
  "choose_randomly six_a (heap_of []) PokeTeam_init
     = Inr (projr (choose_randomly six_a (heap_of []) PokeTeam_init))
   \<and> assemble_team (heap_of []) ROTATE None
        (snd (projr (choose_randomly six_a (heap_of []) PokeTeam_init)))
     = Inr (get_team First arena)
   \<and> original_team (get_team First arena) = [Some 0, Some 1, Some 2, Some 3, Some 4, Some 5]
   \<and> set (order (get_team First arena)) \<subseteq> set (original_team (get_team First arena))"
proof -
  define c where "c = choose_randomly six_a (heap_of []) PokeTeam_init"
  have 1: "c = Inr (fst (projr c), snd (projr c))"
    by (simp add: c_def arena_eval)
  have 2: "assemble_team (heap_of []) ROTATE None (snd (projr c)) = Inr (get_team First arena)"
    by (simp add: c_def arena_eval get_team_def trainer_def)
  have 3: "original_team (get_team First arena)
             = [Some 0, Some 1, Some 2, Some 3, Some 4, Some 5]"
    by (simp add: arena_eval get_team_def trainer_def)
  from original_team_frame[of First neutral 0 arena six_a "heap_of []" PokeTeam_init
         "fst (projr c)" "snd (projr c)" "heap_of []" ROTATE None "get_team First arena"]
    1 2
  have "set (order (get_team First arena)) \<subseteq> set (original_team (get_team First arena))"
    unfolding c_def[symmetric] by blast
  with 1 2 3 show ?thesis unfolding c_def[symmetric] by simp
qed

section \<open>Regeneration\<close>

lemma reset_health_eq:
  "reset_health POKE_LIST p =
     (if same_line POKE_LIST p = [] then p
      else p\<lparr>health := health (last (same_line POKE_LIST p))\<rparr>)"
proof (induction POKE_LIST arbitrary: p)
  case Nil
  then show ?case by (simp add: same_line_def)
next
  case (Cons q ps)
  show ?case
  proof (cases "evolution_line p = evolution_line q")
    case True
    have "same_line ps (p\<lparr>health := health q\<rparr>) = same_line ps p"
      by (simp add: same_line_def)
    with True Cons.IH[of "p\<lparr>health := health q\<rparr>"] show ?thesis
      by (simp add: same_line_def)
  next
    case False
    with Cons.IH[of p] show ?thesis by (simp add: same_line_def)
  qed
qed

lemma reset_health_idem:
  "reset_health POKE_LIST (reset_health POKE_LIST p) = reset_health POKE_LIST p"
proof -
  have "same_line POKE_LIST (p\<lparr>health := x\<rparr>) = same_line POKE_LIST p" for x
    by (simp add: same_line_def)
  then show ?thesis by (simp add: reset_health_eq)
qed

lemma regenerate_loop_heap:
  "regenerate_loop POKE_LIST orig h = Inr h' \<Longrightarrow>
   h' a = (if Some a \<in> set orig then reset_health POKE_LIST (h a) else h a)"
proof (induction orig arbitrary: h)
  case Nil
  then show ?case by simp
next
  case (Cons slot rest)
  show ?case
  proof (cases slot)
    case None
    with Cons.prems have "regenerate_loop POKE_LIST rest h = Inr h'"
      by (simp split: if_splits)
    from Cons.IH[OF this] None show ?thesis by simp
  next
    case (Some x)
    with Cons.prems
    have "regenerate_loop POKE_LIST rest (h(x := reset_health POKE_LIST (h x))) = Inr h'"
      by simp
    from Cons.IH[OF this] Some show ?thesis
      by (simp add: reset_health_idem)
  qed
qed

lemmas veteran_eval = veteran_heap_def veteran_team_def six_c_def templates_def cub_def grown_def
  regenerated_def regenerate_team_def drawn_def choose_randomly_def
  PokeTeam_init_def TEAM_LIMIT_def assemble_team_def eval_nat_numeral upt_rec
  append_queue_def level_up_def evolve_def defend_def pokemon_def Let_def

text \<open>
  Claim C3 states that after regeneration the name reverts to the unevolved stage. The
  Bear of \<open>veteran\_heap\<close> (health 21/2) has health 8 after \<open>regenerate\_team\<close>, the health
  of the Cub template, and is still named Bear; the unevolved stage of its line is Cub.
\<close>

theorem regenerate_team_name_counterexample:
  "name (veteran_heap 0) = ''Bear'' \<and> health (veteran_heap 0) = 21 / 2
   \<and> regenerate_team templates veteran_heap ROTATE None veteran_team = Inr regenerated
   \<and> health (fst regenerated 0) = 8
   \<and> name (fst regenerated 0) = ''Bear''
   \<and> hd (evolution_line (fst regenerated 0)) = ''Cub''"
  by (simp add: veteran_eval)

text \<open>
  Claim C3, amended. After \<open>regenerate\_team\<close> has returned, every Pokemon of
  \<open>original\_team\<close> differs from what it was before in its health only: its name (evolved
  or not), level and other stats are as the battle left them. Its health is that of the
  last template of \<open>POKE\_LIST\<close> with its evolution line, whatever damage it had taken,
  and is unchanged when no template has that line.
\<close>

theorem regenerate_team_health_only:
  assumes "regenerate_team POKE_LIST h m c self = Inr (h', self')"
    and "Some a \<in> set (original_team self)"
  shows "h' a = (h a)\<lparr>health := health (h' a)\<rparr>
         \<and> health (h' a) = (if same_line POKE_LIST (h a) = [] then health (h a)
                             else health (last (same_line POKE_LIST (h a))))
         \<and> name (h' a) = name (h a)"
proof -
  from assms(1) have "regenerate_loop POKE_LIST (original_team self) h = Inr h'"
    by (auto simp: regenerate_team_def split: sum.splits)
  from regenerate_loop_heap[OF this, of a] assms(2)
  have "h' a = reset_health POKE_LIST (h a)" by simp
  then show ?thesis by (simp add: reset_health_eq)
qed


theorem regenerate_team_health_only_witness:
  "regenerate_team templates veteran_heap ROTATE None veteran_team = Inr regenerated
   \<and> Some 0 \<in> set (original_team veteran_team)
   \<and> same_line templates (veteran_heap 0) = [cub]
   \<and> health (fst regenerated 0) = health cub
   \<and> name (fst regenerated 0) = name (veteran_heap 0)"
proof -
  have 1: "regenerate_team templates veteran_heap ROTATE None veteran_team
             = Inr (fst regenerated, snd regenerated)"
    by (simp add: veteran_eval)
  have 2: "Some 0 \<in> set (original_team veteran_team)"
    by (simp add: veteran_eval)
  have 3: "same_line templates (veteran_heap 0) = [cub]"
    by (simp add: veteran_eval same_line_def)
  from regenerate_team_health_only[OF 1 2] 1 2 3 show ?thesis by simp
qed

section \<open>Resorting\<close>

lemma index_to_add_bounds:
  assumes "sorted ks" "0 \<le> low" "high < int (length ks)" "low \<le> high + 1"
    and "\<forall>j. j < nat low \<longrightarrow> ks ! j \<le> k"
    and "\<forall>j. nat (high + 1) \<le> j \<and> j < length ks \<longrightarrow> k \<le> ks ! j"
  shows "low \<le> index_to_add ks k low high \<and> index_to_add ks k low high \<le> high + 1
         \<and> (\<forall>j. j < nat (index_to_add ks k low high) \<longrightarrow> ks ! j \<le> k)
         \<and> (\<forall>j. nat (index_to_add ks k low high) \<le> j \<and> j < length ks \<longrightarrow> k \<le> ks ! j)"
  using assms
proof (induction ks k low high rule: index_to_add.induct)
  case (1 ks k low high)
  show ?case
  proof (cases "low \<le> high")
    case False
    with "1.prems" have "high + 1 = low" by simp
    with False "1.prems" show ?thesis
      by (subst (1 2 3 4) index_to_add.simps) simp
  next
    case True
    define mid where "mid = (low + high) div 2"
    have mid: "low \<le> mid" "mid \<le> high" using True by (simp_all add: mid_def)
    have midn: "nat mid < length ks" using mid "1.prems" by simp
    consider (lt) "ks ! nat mid < k" | (gt) "\<not> ks ! nat mid < k" "k < ks ! nat mid"
      | (eq) "ks ! nat mid = k" by fastforce
    then show ?thesis
    proof cases
      case lt
      have unf: "index_to_add ks k low high = index_to_add ks k (mid + 1) high"
        using True lt by (subst index_to_add.simps) (simp add: mid_def Let_def)
      have below: "\<forall>j. j < nat (mid + 1) \<longrightarrow> ks ! j \<le> k"
      proof (intro allI impI)
        fix j assume "j < nat (mid + 1)"
        then have "j \<le> nat mid" using mid "1.prems" by simp
        then have "ks ! j \<le> ks ! nat mid" using \<open>sorted ks\<close> midn
          by (simp add: sorted_iff_nth_mono)
        with lt show "ks ! j \<le> k" by simp
      qed
      have "mid + 1 \<le> index_to_add ks k (mid + 1) high
            \<and> index_to_add ks k (mid + 1) high \<le> high + 1
            \<and> (\<forall>j. j < nat (index_to_add ks k (mid + 1) high) \<longrightarrow> ks ! j \<le> k)
            \<and> (\<forall>j. nat (index_to_add ks k (mid + 1) high) \<le> j \<and> j < length ks
                   \<longrightarrow> k \<le> ks ! j)"
        using "1.IH"(1)[OF True mid_def lt] "1.prems" mid below
        by simp
      with unf mid show ?thesis by simp
    next
      case gt
      have unf: "index_to_add ks k low high = index_to_add ks k low (mid - 1)"
        using True gt by (subst index_to_add.simps) (simp add: mid_def Let_def)
      have above: "\<forall>j. nat (mid - 1 + 1) \<le> j \<and> j < length ks \<longrightarrow> k \<le> ks ! j"
      proof (intro allI impI)
        fix j assume "nat (mid - 1 + 1) \<le> j \<and> j < length ks"
        then have j: "nat mid \<le> j" "j < length ks" by simp_all
        then have "ks ! nat mid \<le> ks ! j" using \<open>sorted ks\<close>
          by (simp add: sorted_iff_nth_mono)
        with gt show "k \<le> ks ! j" by simp
      qed
      have "low \<le> index_to_add ks k low (mid - 1)
            \<and> index_to_add ks k low (mid - 1) \<le> mid - 1 + 1
            \<and> (\<forall>j. j < nat (index_to_add ks k low (mid - 1)) \<longrightarrow> ks ! j \<le> k)
            \<and> (\<forall>j. nat (index_to_add ks k low (mid - 1)) \<le> j \<and> j < length ks
                   \<longrightarrow> k \<le> ks ! j)"
        using "1.IH"(2)[OF True mid_def gt(1) gt(2)] "1.prems" mid above
        by simp
      with unf mid show ?thesis by simp
    next
      case eq
      have unf: "index_to_add ks k low high = mid"
        using True eq by (subst index_to_add.simps) (simp add: mid_def Let_def)
      have "\<forall>j. j < nat mid \<longrightarrow> ks ! j \<le> k"
        using \<open>sorted ks\<close> midn eq by (auto simp: sorted_iff_nth_mono)
      moreover have "\<forall>j. nat mid \<le> j \<and> j < length ks \<longrightarrow> k \<le> ks ! j"
        using \<open>sorted ks\<close> midn eq by (auto simp: sorted_iff_nth_mono)
      ultimately show ?thesis using unf mid by simp
    qed
  qed
qed


lemma add_position:
  fixes item :: ListItem and xs :: "ListItem list"
  assumes "sorted (map snd xs)"
  defines "i \<equiv> nat (index_to_add (map snd xs) (snd item) 0 (int (length xs) - 1))"
  shows "add item xs = take i xs @ item # drop i xs" and "i \<le> length xs"
    and "sorted (map snd (take i xs @ item # drop i xs))"
proof -
  let ?ks = "map snd xs"
  let ?r = "index_to_add ?ks (snd item) 0 (int (length ?ks) - 1)"
  have b: "0 \<le> ?r \<and> ?r \<le> int (length ?ks) - 1 + 1
         \<and> (\<forall>j. j < nat ?r \<longrightarrow> ?ks ! j \<le> snd item)
         \<and> (\<forall>j. nat ?r \<le> j \<and> j < length ?ks \<longrightarrow> snd item \<le> ?ks ! j)"
    by (rule index_to_add_bounds) (use assms(1) in auto)
  have i: "i = nat ?r" by (simp add: i_def)
  show "add item xs = take i xs @ item # drop i xs"
    by (simp add: add_def i_def Let_def)
  from b have r: "0 \<le> ?r" "?r \<le> int (length xs)" by simp_all
  show le: "i \<le> length xs" unfolding i using r by (simp add: nat_le_iff)
  have lo: "\<forall>x \<in> set (take i ?ks). x \<le> snd item"
  proof
    fix x assume "x \<in> set (take i ?ks)"
    then obtain j where "j < length (take i ?ks)" "x = take i ?ks ! j"
      by (metis in_set_conv_nth)
    then have "j < i" "x = ?ks ! j" by simp_all
    with b i show "x \<le> snd item" by simp
  qed
  have hi: "\<forall>y \<in> set (drop i ?ks). snd item \<le> y"
  proof
    fix y assume "y \<in> set (drop i ?ks)"
    then obtain j where j: "j < length (drop i ?ks)" "y = drop i ?ks ! j"
      by (metis in_set_conv_nth)
    then have "i + j < length ?ks" "y = ?ks ! (i + j)" using le by simp_all
    with b i show "snd item \<le> y" by simp
  qed
  have "sorted (take i ?ks @ snd item # drop i ?ks)"
    using assms(1) lo hi
    by (auto simp: sorted_append sorted_wrt_take sorted_wrt_drop dest: order_trans)
  then show "sorted (map snd (take i xs @ item # drop i xs))"
    by (simp add: take_map drop_map)
qed

lemma assign_loop_perm:
  assumes "in_criterion_list c"
  shows "sorted (map snd (map (list_item h (the c) ord xs) perm)) \<Longrightarrow>
     \<exists>perm'. assign_loop h c ord xs is (map (list_item h (the c) ord xs) perm)
                = Inr (map (list_item h (the c) ord xs) perm')
            \<and> mset perm' = mset perm + mset is
            \<and> sorted (map snd (map (list_item h (the c) ord xs) perm'))"
proof (induction "is" arbitrary: perm)
  case Nil
  then show ?case by auto
next
  case (Cons i "is")
  let ?f = "list_item h (the c) ord xs"
  define n where "n = nat (index_to_add (map snd (map ?f perm)) (snd (?f i)) 0
                            (int (length (map ?f perm)) - 1))"
  have a: "add (?f i) (map ?f perm) = take n (map ?f perm) @ ?f i # drop n (map ?f perm)"
    and s: "sorted (map snd (take n (map ?f perm) @ ?f i # drop n (map ?f perm)))"
    using add_position[OF Cons.prems, of "?f i"] by (simp_all add: n_def)
  define perm1 where "perm1 = take n perm @ i # drop n perm"
  have eq: "add (?f i) (map ?f perm) = map ?f perm1"
    by (simp add: a perm1_def take_map drop_map)
  have m: "mset perm1 = add_mset i (mset perm)"
    by (simp add: perm1_def) (metis append_take_drop_id mset_append)
  have "sorted (map snd (add (?f i) (map ?f perm)))" using s unfolding a .
  then have "sorted (map snd (map ?f perm1))" unfolding eq .
  from Cons.IH[OF this] obtain perm' where
    p: "assign_loop h c ord xs is (map ?f perm1) = Inr (map ?f perm')"
       "mset perm' = mset perm1 + mset is" "sorted (map snd (map ?f perm'))"
    by blast
  have "assign_loop h c ord xs (i # is) (map ?f perm) = Inr (map ?f perm')"
    using assms p(1) eq by (simp add: list_item_def Let_def)
  with p m show ?case by auto
qed


lemma assign_team_flag:
  "assign_team h c self = Inr self' \<Longrightarrow> special_called self' = special_called self"
  by (auto simp: assign_team_def Let_def split: adt.splits sum.splits)

lemma special_toggles:
  "special h OPTIMISE self = Inr self' \<Longrightarrow> special_called self' = (\<not> special_called self)"
  by (auto simp: special_def Let_def dest!: assign_team_flag)

lemma special_times_parity:
  "special_times h n self = Inr self' \<Longrightarrow>
   special_called self' = (if odd n then \<not> special_called self else special_called self)"
proof (induction n arbitrary: self)
  case 0
  then show ?case by simp
next
  case (Suc n)
  then obtain s1 where 1: "special h OPTIMISE self = Inr s1" "special_times h n s1 = Inr self'"
    by (auto split: sum.splits)
  from Suc.IH[OF 1(2)] special_toggles[OF 1(1)] show ?case by auto
qed

lemma assign_team_perm:
  assumes "team self = ArraySortedList xs" and "crit \<in> set CRITERION_LIST"
  shows "\<exists>perm. mset perm = mset [0..<length xs]
     \<and> assign_team h (Some crit) self
         = Inr (self\<lparr>team := ArraySortedList (map (list_item h crit (direction self) xs) perm)\<rparr>)
     \<and> sorted_wrt (\<lambda>i j. snd (list_item h crit (direction self) xs i)
                          < snd (list_item h crit (direction self) xs j)) perm"
proof -
  let ?f = "list_item h crit (direction self) xs"
  have c: "in_criterion_list (Some crit)" using assms(2) by (simp add: in_criterion_list_def)
  have "sorted (map snd (map (list_item h (the (Some crit)) (direction self) xs) []))" by simp
  from assign_loop_perm[OF c this, of "[0..<length xs]"] obtain perm where
    p: "assign_loop h (Some crit) (direction self) xs [0..<length xs] [] = Inr (map ?f perm)"
       "mset perm = mset [0..<length xs]" "sorted (map snd (map ?f perm))"
    by auto
  have d: "distinct perm" using p(2) by (metis distinct_upt mset_eq_imp_distinct_iff)
  have "inj (\<lambda>i. snd (?f i))"
    by (rule injI) (auto simp: list_item_def direction_def split: if_splits)
  then have "distinct (map (\<lambda>i. snd (?f i)) perm)"
    using d by (simp add: distinct_map inj_on_def)
  with p(3) have "sorted_wrt (<) (map (\<lambda>i. snd (?f i)) perm)"
    by (simp add: strict_sorted_iff comp_def)
  then have s: "sorted_wrt (\<lambda>i j. snd (?f i) < snd (?f j)) perm"
    by (simp add: sorted_wrt_map)
  have "assign_team h (Some crit) self = Inr (self\<lparr>team := ArraySortedList (map ?f perm)\<rparr>)"
    using assms(1) p(1) by (simp add: assign_team_def direction_def Let_def)
  with p(2) s show ?thesis by blast
qed

lemma tied_special: "special tied_heap OPTIMISE tied_team
   = Inr (tied_team\<lparr>team := ArraySortedList [(1, (- 5, - 1)), (0, (- 5, 0))],
                     special_called := True\<rparr>)"
  by code_simp

lemma tied_after_eq:
  "tied_after = tied_team\<lparr>team := ArraySortedList [(1, (- 5, - 1)), (0, (- 5, 0))],
                           special_called := True\<rparr>"
  by (simp add: tied_after_def tied_special)

lemma tied_again:
  "assign_team tied_heap (Some ''health'') tied_after
     = Inr (tied_after\<lparr>team := ArraySortedList [(0, (- 5, - 1)), (1, (- 5, 0))]\<rparr>)"
  unfolding tied_after_eq by code_simp

text \<open>
  Claim C5 (evaluation of the code at the failing input). \<open>tied\_team\<close> is a sorted team
  of two Pokemon of equal health, in the order 0, 1. One call of \<open>special\<close> in the
  optimised mode reverses the direction and resorts: the list is sorted by direction
  times health (both keys are -5), but the two tied Pokemon have swapped to the order
  1, 0, and the next \<open>assign\_team\<close> swaps them back: in the reversed direction the tie
  key is minus the position, so ties do not keep their relative order.
\<close>

theorem special_swaps_ties:
  "order tied_team = [Some 0, Some 1]
   \<and> health (tied_heap 0) = health (tied_heap 1)
   \<and> \<not> special_called tied_team
   \<and> special tied_heap OPTIMISE tied_team = Inr tied_after
   \<and> special_called tied_after
   \<and> team tied_after = ArraySortedList [(1, (- 5, - 1)), (0, (- 5, 0))]
   \<and> order tied_after = [Some 1, Some 0]
   \<and> assign_team tied_heap (Some ''health'') tied_after
       = Inr (tied_after\<lparr>team := ArraySortedList [(0, (- 5, - 1)), (1, (- 5, 0))]\<rparr>)
   \<and> order (tied_after\<lparr>team := ArraySortedList [(0, (- 5, - 1)), (1, (- 5, 0))]\<rparr>)
       = [Some 0, Some 1]"
proof -
  have 1: "order tied_team = [Some 0, Some 1]" "\<not> special_called tied_team"
    by (simp_all add: tied_team_def order_def)
  have 2: "health (tied_heap 0) = health (tied_heap 1)"
    by (simp add: tied_heap_def heap_of_def pokemon_def)
  have 3: "special tied_heap OPTIMISE tied_team = Inr tied_after"
    by (simp add: tied_special tied_after_eq)
  have 4: "special_called tied_after"
    "team tied_after = ArraySortedList [(1, (- 5, - 1)), (0, (- 5, 0))]"
    "order tied_after = [Some 1, Some 0]"
    by (simp_all add: tied_after_eq order_def)
  have 5: "order (tied_after\<lparr>team := ArraySortedList [(0, (- 5, - 1)), (1, (- 5, 0))]\<rparr>)
       = [Some 0, Some 1]"
    by (simp add: order_def)
  from 1 2 3 4 5 tied_again show ?thesis by blast
qed

end
